theory Spec2Isabelle
  imports Main "HOL-Library.List_Lexorder" "HOL-Library.AList" "HOL-Library.Code_Target_Nat"
begin

chapter \<open>The program\<close>

section \<open>Python text\<close>

text \<open>
  A Python \<open>str\<close> is a sequence of Unicode code points; \<open>len\<close> counts code points and
  comparison is lexicographic on them.  A string is therefore a list of code points, ordered
  by the lexicographic order on lists.  The Chinese literals of the source are written by their
  code points.
\<close>

type_synonym pystr = "nat list"

definition asc :: "string \<Rightarrow> pystr" where
  "asc s = map of_char s"

text \<open>\<open>sub in s\<close> for two strings: \<open>sub\<close> occurs in \<open>s\<close> as a contiguous block.\<close>

fun starts_with :: "pystr \<Rightarrow> pystr \<Rightarrow> bool" where
  "starts_with [] s = True"
| "starts_with (a # sub) [] = False"
| "starts_with (a # sub) (c # s) = (a = c \<and> starts_with sub s)"

fun py_in :: "pystr \<Rightarrow> pystr \<Rightarrow> bool" where
  "py_in sub [] = (sub = [])"
| "py_in sub (c # s) = (starts_with sub (c # s) \<or> py_in sub s)"

text \<open>
  \<open>str.strip()\<close> removes leading and trailing whitespace; the code points below are the ones
  for which \<open>str.isspace\<close> holds.
\<close>

definition isspace_char :: "nat \<Rightarrow> bool" where
  "isspace_char c =
     ((9 \<le> c \<and> c \<le> 13) \<or> (28 \<le> c \<and> c \<le> 32) \<or> c = 0x85 \<or> c = 0xA0 \<or> c = 0x1680 \<or>
      (0x2000 \<le> c \<and> c \<le> 0x200A) \<or> c = 0x2028 \<or> c = 0x2029 \<or> c = 0x202F \<or>
      c = 0x205F \<or> c = 0x3000)"

definition py_strip :: "pystr \<Rightarrow> pystr" where
  "py_strip s = rev (dropWhile isspace_char (rev (dropWhile isspace_char s)))"

text \<open>
  \<open>str.lower()\<close>.  The letters A to Z are mapped to a to z, and U+0130 to \<open>i\<close> followed by
  U+0307.  Every other code point is left as it is: the lower-case form of no other code
  point contains a character of any keyword the source looks for, so keyword containment in
  the lowered text is the same.
\<close>

definition lower_char :: "nat \<Rightarrow> pystr" where
  "lower_char c =
     (if 65 \<le> c \<and> c \<le> 90 then [c + 32] else if c = 0x130 then [0x69, 0x307] else [c])"

definition py_lower :: "pystr \<Rightarrow> pystr" where
  "py_lower s = concat (map lower_char s)"

text \<open>
  \<open>str.isdigit()\<close>: the string is not empty and every character is a digit.  A character
  is a digit when Unicode gives it the numeric type Digit or Decimal: the ASCII digits, the
  superscript and subscript digits, the full-width digits and the digits of the other
  scripts.  The ranges of code points below are those of Unicode 14.
\<close>

definition digit_ranges :: "(nat \<times> nat) list" where
  "digit_ranges =
     [(0x30, 0x39), (0xB2, 0xB3), (0xB9, 0xB9), (0x660, 0x669), (0x6F0, 0x6F9), (0x7C0, 0x7C9),
      (0x966, 0x96F), (0x9E6, 0x9EF), (0xA66, 0xA6F), (0xAE6, 0xAEF), (0xB66, 0xB6F),
      (0xBE6, 0xBEF), (0xC66, 0xC6F), (0xCE6, 0xCEF), (0xD66, 0xD6F), (0xDE6, 0xDEF),
      (0xE50, 0xE59), (0xED0, 0xED9), (0xF20, 0xF29), (0x1040, 0x1049), (0x1090, 0x1099),
      (0x1369, 0x1371), (0x17E0, 0x17E9), (0x1810, 0x1819), (0x1946, 0x194F), (0x19D0, 0x19DA),
      (0x1A80, 0x1A89), (0x1A90, 0x1A99), (0x1B50, 0x1B59), (0x1BB0, 0x1BB9), (0x1C40, 0x1C49),
      (0x1C50, 0x1C59), (0x2070, 0x2070), (0x2074, 0x2079), (0x2080, 0x2089), (0x2460, 0x2468),
      (0x2474, 0x247C), (0x2488, 0x2490), (0x24EA, 0x24EA), (0x24F5, 0x24FD), (0x24FF, 0x24FF),
      (0x2776, 0x277E), (0x2780, 0x2788), (0x278A, 0x2792), (0xA620, 0xA629), (0xA8D0, 0xA8D9),
      (0xA900, 0xA909), (0xA9D0, 0xA9D9), (0xA9F0, 0xA9F9), (0xAA50, 0xAA59), (0xABF0, 0xABF9),
      (0xFF10, 0xFF19), (0x104A0, 0x104A9), (0x10A40, 0x10A43), (0x10D30, 0x10D39),
      (0x10E60, 0x10E68), (0x11052, 0x1105A), (0x11066, 0x1106F), (0x110F0, 0x110F9),
      (0x11136, 0x1113F), (0x111D0, 0x111D9), (0x112F0, 0x112F9), (0x11450, 0x11459),
      (0x114D0, 0x114D9), (0x11650, 0x11659), (0x116C0, 0x116C9), (0x11730, 0x11739),
      (0x118E0, 0x118E9), (0x11950, 0x11959), (0x11C50, 0x11C59), (0x11D50, 0x11D59),
      (0x11DA0, 0x11DA9), (0x16A60, 0x16A69), (0x16AC0, 0x16AC9), (0x16B50, 0x16B59),
      (0x1D7CE, 0x1D7FF), (0x1E140, 0x1E149), (0x1E2F0, 0x1E2F9), (0x1E950, 0x1E959),
      (0x1F100, 0x1F10A), (0x1FBF0, 0x1FBF9)]"

definition isdigit_char :: "nat \<Rightarrow> bool" where
  "isdigit_char c = list_ex (\<lambda>(lo, hi). lo \<le> c \<and> c \<le> hi) digit_ranges"

definition py_isdigit :: "pystr \<Rightarrow> bool" where
  "py_isdigit s = (s \<noteq> [] \<and> list_all isdigit_char s)"

text \<open>\<open>s.replace(ch, '')\<close> for a one-character \<open>ch\<close>: every occurrence is removed.\<close>

definition remove_char :: "nat \<Rightarrow> pystr \<Rightarrow> pystr" where
  "remove_char ch s = filter (\<lambda>c. c \<noteq> ch) s"

text \<open>The literals of the source.\<close>

definition s_nan :: pystr where "s_nan = asc ''nan''"
definition s_xuehao :: pystr where "s_xuehao = [0x5B66, 0x53F7]"
definition s_xingming :: pystr where "s_xingming = [0x59D3, 0x540D]"
definition s_mingzi :: pystr where "s_mingzi = [0x540D, 0x5B57]"
definition s_banji :: pystr where "s_banji = [0x73ED, 0x7EA7]"
definition s_zhuanye :: pystr where "s_zhuanye = [0x4E13, 0x4E1A]"
definition s_xingbie :: pystr where "s_xingbie = [0x6027, 0x522B]"
definition s_nannv :: pystr where "s_nannv = [0x7537, 0x5973]"
definition s_xuhao :: pystr where "s_xuhao = [0x5E8F, 0x53F7]"
definition s_bianhao :: pystr where "s_bianhao = [0x7F16, 0x53F7]"
definition s_nan_male :: pystr where "s_nan_male = [0x7537]"
definition s_nv_female :: pystr where "s_nv_female = [0x5973]"

section \<open>Cells and grids\<close>

text \<open>
  A cell of a sheet as pandas hands it over: the missing marker, a text, an integer, or a
  float other than the missing marker.  The program prints a float with \<open>str\<close>, tests it with
  \<open>pd.notna\<close> and passes it on, and does nothing else with it; a float is kept as the text
  \<open>str\<close> prints for it, so the float three is \<open>Flt\<close> of the text \<open>3.0\<close>.  Whether a whole
  number arrives as an integer or as a float is the reader's matter: pandas hands the numbers
  of a column with a missing cell over as floats, and so does \<open>iterrows\<close> for a frame whose
  columns are all numeric and one of them is float.  \<open>str(cell)\<close> of the missing marker is the
  text \<open>nan\<close>.  A sheet read with \<open>header=None\<close> is a list of rows.
\<close>

datatype cell = NaN | Str pystr | Num int | Flt pystr

fun digits_of :: "nat \<Rightarrow> pystr" where
  "digits_of n = (if n < 10 then [48 + n] else digits_of (n div 10) @ [48 + n mod 10])"

fun py_str :: "cell \<Rightarrow> pystr" where
  "py_str NaN = s_nan"
| "py_str (Str s) = s"
| "py_str (Num i) = (if i < 0 then 45 # digits_of (nat (- i)) else digits_of (nat i))"
| "py_str (Flt s) = s"

type_synonym grid = "cell list list"

text \<open>\<open>df.iloc[i].astype(str).tolist()\<close>\<close>

definition row_data :: "grid \<Rightarrow> nat \<Rightarrow> pystr list" where
  "row_data df i = map py_str (df ! i)"

section \<open>Header Locator\<close>

text \<open>
  The keys of \<open>col_mapping\<close>: U+5B66 U+53F7 (student number), U+59D3 U+540D (name),
  U+73ED U+7EA7 (class), U+6027 U+522B (gender) and U+5E8F U+53F7 (sequence number).
\<close>

datatype colkey = Xuehao | Xingming | Banji | Xingbie | Xuhao

text \<open>The \<open>if\<close>/\<open>elif\<close> chain of lines 115 to 131: the field a header cell is taken for.\<close>

definition header_field :: "pystr \<Rightarrow> colkey option" where
  "header_field cell_value =
     (let cell_str = py_lower (py_strip cell_value) in
      if py_in s_xuehao cell_str \<or> py_in (asc ''student'') cell_str \<or> py_in (asc ''id'') cell_str
        then Some Xuehao
      else if py_in s_xingming cell_str \<or> py_in (asc ''name'') cell_str \<or> py_in s_mingzi cell_str
        then Some Xingming
      else if py_in s_banji cell_str \<or> py_in (asc ''class'') cell_str \<or> py_in s_zhuanye cell_str
        then Some Banji
      else if py_in s_xingbie cell_str \<or> py_in (asc ''gender'') cell_str \<or> py_in s_nannv cell_str
        then Some Xingbie
      else if py_in s_xuhao cell_str \<or> py_in (asc ''no'') cell_str \<or> py_in s_bianhao cell_str
        then Some Xuhao
      else None)"

text \<open>
  The loop over the cells of one row, from column \<open>j\<close> on, carrying \<open>temp_mapping\<close> and
  \<open>found_headers\<close>.
\<close>

fun scan_cells :: "nat \<Rightarrow> pystr list \<Rightarrow> (colkey \<rightharpoonup> nat) \<times> nat \<Rightarrow> (colkey \<rightharpoonup> nat) \<times> nat" where
  "scan_cells j [] st = st"
| "scan_cells j (cell_value # rest) (temp_mapping, found_headers) =
     (case header_field cell_value of
        Some f \<Rightarrow> scan_cells (Suc j) rest (temp_mapping(f \<mapsto> j), found_headers + 1)
      | None \<Rightarrow> scan_cells (Suc j) rest (temp_mapping, found_headers))"

text \<open>
  The loop over the rows \<open>is\<close>; the first row with at least two header cells ends it.  The
  result is \<open>(header_row_idx, col_mapping)\<close>.
\<close>

fun find_header :: "grid \<Rightarrow> nat list \<Rightarrow> nat option \<times> (colkey \<rightharpoonup> nat)" where
  "find_header df [] = (None, Map.empty)"
| "find_header df (i # is) =
     (case scan_cells 0 (row_data df i) (Map.empty, 0) of
        (temp_mapping, found_headers) \<Rightarrow>
          if 2 \<le> found_headers then (Some i, temp_mapping) else find_header df is)"

definition header_locator :: "grid \<Rightarrow> nat option \<times> (colkey \<rightharpoonup> nat)" where
  "header_locator df = find_header df [0 ..< min 20 (length df)]"

section \<open>Roster Extractor\<close>

text \<open>
  One entry of \<open>cl_students\<close>; the fields are named after the local variables the values
  come from, \<open>source_file\<close> being \<open>Path(cl_file).name\<close>.
\<close>

record student =
  student_id :: pystr
  student_name :: pystr
  original_seq :: pystr
  class_info :: pystr
  gender_info :: pystr
  source_file :: pystr

text \<open>
  The test of lines 154 to 157 (and 228 to 231) on the stripped text of the cell in the
  student-number column.  The code points 46 and 45 are \<open>.\<close> and \<open>-\<close>.
\<close>

definition valid_student_id :: "pystr \<Rightarrow> bool" where
  "valid_student_id cell_value =
     (cell_value \<noteq> [] \<and> cell_value \<noteq> s_nan \<and> cell_value \<noteq> [] \<and>
      8 \<le> length cell_value \<and>
      list_ex isdigit_char cell_value \<and>
      \<not> py_isdigit (remove_char 45 (remove_char 46 cell_value)))"

subsection \<open>Mapped path\<close>

text \<open>
  Lines 167 to 180: the value of the name, class or gender column of a row, the empty string
  when the column is not mapped, lies outside the row, or holds nothing.
\<close>

definition mapped_value :: "(colkey \<rightharpoonup> nat) \<Rightarrow> colkey \<Rightarrow> pystr list \<Rightarrow> pystr" where
  "mapped_value col_mapping key row =
     (case col_mapping key of
        None \<Rightarrow> []
      | Some c \<Rightarrow>
          if c < length row then
            (let v = py_strip (row ! c) in if v \<noteq> [] \<and> v \<noteq> s_nan then v else [])
          else [])"

text \<open>Lines 182 to 185: the sequence number is taken only when it is all digits.\<close>

definition mapped_seq :: "(colkey \<rightharpoonup> nat) \<Rightarrow> pystr list \<Rightarrow> pystr" where
  "mapped_seq col_mapping row =
     (case col_mapping Xuhao of
        None \<Rightarrow> []
      | Some c \<Rightarrow>
          if c < length row then
            (let seq_value = py_strip (row ! c) in
             if seq_value \<noteq> [] \<and> seq_value \<noteq> s_nan \<and> py_isdigit seq_value then seq_value else [])
          else [])"

text \<open>The body of the loop of line 146: the records one row appends to \<open>cl_students\<close>.\<close>

definition mapped_row :: "(colkey \<rightharpoonup> nat) \<Rightarrow> nat \<Rightarrow> pystr \<Rightarrow> pystr list \<Rightarrow> student list" where
  "mapped_row col_mapping student_id_col fname row =
     (if student_id_col < length row then
        (let cell_value = py_strip (row ! student_id_col) in
         if valid_student_id cell_value then
           [\<lparr>student_id = cell_value,
             student_name = mapped_value col_mapping Xingming row,
             original_seq = mapped_seq col_mapping row,
             class_info = mapped_value col_mapping Banji row,
             gender_info = mapped_value col_mapping Xingbie row,
             source_file = fname\<rparr>]
         else [])
      else [])"

fun mapped_rows ::
  "(colkey \<rightharpoonup> nat) \<Rightarrow> nat \<Rightarrow> pystr \<Rightarrow> grid \<Rightarrow> nat list \<Rightarrow> student list \<Rightarrow> student list" where
  "mapped_rows col_mapping student_id_col fname df [] cl_students = cl_students"
| "mapped_rows col_mapping student_id_col fname df (i # is) cl_students =
     mapped_rows col_mapping student_id_col fname df is
       (cl_students @ mapped_row col_mapping student_id_col fname (row_data df i))"

subsection \<open>Fallback path\<close>

text \<open>Lines 207 to 217: the first cell, row by row and left to right, that names the student number.\<close>

fun find_id_cell :: "nat \<Rightarrow> pystr list \<Rightarrow> nat option" where
  "find_id_cell j [] = None"
| "find_id_cell j (cell_value # rest) =
     (let cell_str = py_lower (py_strip cell_value) in
      if py_in s_xuehao cell_str \<or> py_in (asc ''student'') cell_str \<or> py_in (asc ''id'') cell_str
        then Some j
      else find_id_cell (Suc j) rest)"

text \<open>The result is \<open>(student_id_col, header_row)\<close>.\<close>

fun find_id_column :: "grid \<Rightarrow> nat list \<Rightarrow> (nat \<times> nat) option" where
  "find_id_column df [] = None"
| "find_id_column df (i # is) =
     (case find_id_cell 0 (row_data df i) of
        Some j \<Rightarrow> Some (j, i)
      | None \<Rightarrow> find_id_column df is)"

text \<open>
  The keywords of line 253: class, grade, U+73ED, U+7EA7, U+7CFB, U+9662, U+4E13 U+4E1A; and of
  line 267: T, U+5DE5 U+5546, U+7BA1 U+7406, U+7ECF U+6D4E, U+91D1 U+878D, U+4F1A U+8BA1.
\<close>

definition name_excluded_keywords :: "pystr list" where
  "name_excluded_keywords =
     [asc ''class'', asc ''grade'', [0x73ED], [0x7EA7], [0x7CFB], [0x9662], [0x4E13, 0x4E1A]]"

definition class_keywords :: "pystr list" where
  "class_keywords =
     [asc ''T'', [0x5DE5, 0x5546], [0x7BA1, 0x7406], [0x7ECF, 0x6D4E], [0x91D1, 0x878D],
      [0x4F1A, 0x8BA1]]"

text \<open>
  The locals \<open>student_name\<close>, \<open>original_seq\<close>, \<open>gender_info\<close> and \<open>class_info\<close> of the
  loop of line 242, in this order, and its body for one cell that passed the guard of
  line 243.
\<close>

type_synonym row_info = "pystr \<times> pystr \<times> pystr \<times> pystr"

definition infer_cell :: "pystr \<Rightarrow> row_info \<Rightarrow> row_info" where
  "infer_cell potential_value info =
     (case info of (name, seq, gender, cls) \<Rightarrow>
        (let is_student_id =
               (8 \<le> length potential_value \<and> list_ex isdigit_char potential_value \<and>
                \<not> py_isdigit (remove_char 45 (remove_char 46 potential_value)))
         in
         if name = [] \<and> \<not> (is_student_id \<or> py_isdigit (remove_char 46 potential_value)) then
           (if 2 \<le> length potential_value \<and> length potential_value \<le> 15 then
              (if \<not> list_ex (\<lambda>keyword. py_in keyword (py_lower potential_value)) name_excluded_keywords
               then (potential_value, seq, gender, cls)
               else info)
            else info)
         else if seq = [] \<and> py_isdigit potential_value \<and> length potential_value \<le> 3 then
           (name, potential_value, gender, cls)
         else if gender = [] \<and> potential_value \<in> set [s_nan_male, s_nv_female] then
           (name, seq, potential_value, cls)
         else if cls = [] then
           (if list_ex (\<lambda>keyword. py_in keyword potential_value) class_keywords \<and>
               length potential_value \<le> 20 \<and> 3 \<le> length potential_value
            then (name, seq, gender, potential_value)
            else info)
         else info))"

text \<open>The loop of line 242 over the cells of the row, from column \<open>k\<close> on.\<close>

fun infer_cells :: "nat \<Rightarrow> nat \<Rightarrow> pystr list \<Rightarrow> row_info \<Rightarrow> row_info" where
  "infer_cells student_id_col k [] info = info"
| "infer_cells student_id_col k (x # rest) info =
     infer_cells student_id_col (Suc k) rest
       (if k \<noteq> student_id_col \<and> x \<noteq> [] \<and> x \<noteq> s_nan then infer_cell (py_strip x) info else info)"

text \<open>The body of the loop of line 222 for one row.\<close>

definition fallback_row :: "nat \<Rightarrow> pystr \<Rightarrow> pystr list \<Rightarrow> student list" where
  "fallback_row student_id_col fname row =
     (if student_id_col < length row then
        (let cell_str = py_strip (row ! student_id_col) in
         if valid_student_id cell_str then
           (case infer_cells student_id_col 0 row ([], [], [], []) of
              (name, seq, gender, cls) \<Rightarrow>
                if cell_str \<noteq> [] then
                  [\<lparr>student_id = cell_str, student_name = name, original_seq = seq,
                    class_info = cls, gender_info = gender, source_file = fname\<rparr>]
                else [])
         else [])
      else [])"

fun fallback_rows :: "nat \<Rightarrow> pystr \<Rightarrow> grid \<Rightarrow> nat list \<Rightarrow> student list \<Rightarrow> student list" where
  "fallback_rows student_id_col fname df [] cl_students = cl_students"
| "fallback_rows student_id_col fname df (i # is) cl_students =
     fallback_rows student_id_col fname df is
       (if i < length df then cl_students @ fallback_row student_id_col fname (row_data df i)
        else cl_students)"

text \<open>
  Lines 102 to 284: what one roster sheet \<open>df\<close>, read from the file named \<open>fname\<close>, adds to
  \<open>cl_students\<close>.
\<close>

definition extract_students :: "pystr \<Rightarrow> grid \<Rightarrow> student list \<Rightarrow> student list" where
  "extract_students fname df cl_students =
     (case header_locator df of (header_row_idx, col_mapping) \<Rightarrow>
        (case (header_row_idx, col_mapping Xuehao) of
           (Some h, Some student_id_col) \<Rightarrow>
             mapped_rows col_mapping student_id_col fname df
               [h + 1 ..< min (h + 31) (length df)] cl_students
         | _ \<Rightarrow>
             (case find_id_column df [0 ..< min 20 (length df)] of
                Some (student_id_col, header_row) \<Rightarrow>
                  fallback_rows student_id_col fname df
                    [header_row + 1 ..< min (header_row + 31) (length df)] cl_students
              | None \<Rightarrow> cl_students)))"

section \<open>Files and the spreadsheet reader\<close>

text \<open>
  The reader is pandas: \<open>pd.read_excel\<close> with one of two engines.  A file is its path and
  what each engine makes of it, \<open>None\<close> when the engine raises: \<open>read_grid\<close> for the call with
  \<open>header=None\<close>, \<open>read_table\<close> for the call that takes the first row as column labels.
  A labelled table is its column labels and its rows.
\<close>

datatype engine = Openpyxl | Xlrd

datatype error = ReadError | KeyError

record table =
  df_columns :: "pystr list"
  df_rows :: "cell list list"

record xfile =
  fpath :: pystr
  read_grid :: "engine \<Rightarrow> grid option"
  read_table :: "engine \<Rightarrow> table option"

definition py_endswith :: "pystr \<Rightarrow> pystr \<Rightarrow> bool" where
  "py_endswith s suffix = starts_with (rev suffix) (rev s)"

text \<open>\<open>Path(f).name\<close>: what follows the last \<open>/\<close> (code point 47).\<close>

definition path_name :: "pystr \<Rightarrow> pystr" where
  "path_name p = rev (takeWhile (\<lambda>c. c \<noteq> 47) (rev p))"

text \<open>\<open>s.replace(old, '')\<close> for a non-empty \<open>old\<close>: the occurrences are removed from the left.\<close>

function remove_sub :: "pystr \<Rightarrow> pystr \<Rightarrow> pystr" where
  "remove_sub old [] = []"
| "remove_sub old (c # s) =
     (if old \<noteq> [] \<and> starts_with old (c # s) then remove_sub old (drop (length old) (c # s))
      else c # remove_sub old s)"
  by pat_completeness auto
termination
  by (relation "measure (\<lambda>(old, s). length s)") auto

text \<open>Lines 90 to 100: the engines are tried in order and the failure of the last one is raised.\<close>

definition engines_for :: "pystr \<Rightarrow> engine list" where
  "engines_for f = (if py_endswith f (asc ''.xls'') then [Openpyxl, Xlrd] else [Openpyxl])"

fun try_engines :: "(engine \<Rightarrow> 'a option) \<Rightarrow> engine list \<Rightarrow> error + 'a" where
  "try_engines read_excel [] = Inl ReadError"
| "try_engines read_excel (engine # rest) =
     (case read_excel engine of
        Some df \<Rightarrow> Inr df
      | None \<Rightarrow> if rest = [] then Inl ReadError else try_engines read_excel rest)"

text \<open>
  A loop over files whose body stands in \<open>try\<close> \<open>except Exception\<close>.  The body gives the
  collection as it leaves it and the exception it raised, if any; the handler prints a line,
  kept here as the name of the file in a log, and the loop goes on with the next file.
\<close>

fun for_each_file ::
  "(xfile \<Rightarrow> 'a \<Rightarrow> 'a \<times> error option) \<Rightarrow> xfile list \<Rightarrow> 'a \<times> pystr list \<Rightarrow> 'a \<times> pystr list" where
  "for_each_file body [] st = st"
| "for_each_file body (f # fs) (acc, log) =
     (case body f acc of
        (acc', None) \<Rightarrow> for_each_file body fs (acc', log)
      | (acc', Some e) \<Rightarrow> for_each_file body fs (acc', log @ [path_name (fpath f)]))"

text \<open>Lines 88 to 287: the body of the loop over the roster files.\<close>

definition cl_body :: "xfile \<Rightarrow> student list \<Rightarrow> student list \<times> error option" where
  "cl_body cl_file cl_students =
     (case try_engines (read_grid cl_file) (engines_for (fpath cl_file)) of
        Inl e \<Rightarrow> (cl_students, Some e)
      | Inr df \<Rightarrow> (extract_students (path_name (fpath cl_file)) df cl_students, None))"

section \<open>Score Collector\<close>

text \<open>
  \<open>row[label]\<close> for a row of a labelled table: \<open>KeyError\<close> when no column has the label.  A
  frame has one cell for every column; a row given shorter is missing there.
\<close>

fun label_index :: "pystr \<Rightarrow> pystr list \<Rightarrow> nat option" where
  "label_index l [] = None"
| "label_index l (c # cs) = (if c = l then Some 0 else map_option Suc (label_index l cs))"

definition row_get :: "pystr list \<Rightarrow> cell list \<Rightarrow> pystr \<Rightarrow> error + cell" where
  "row_get cols row l =
     (case label_index l cols of
        None \<Rightarrow> Inl KeyError
      | Some j \<Rightarrow> Inr (if j < length row then row ! j else NaN))"

text \<open>
  The score dictionaries keep their keys in insertion order, and an assignment to a key that
  is there replaces its value in place: \<open>sa_scores\<close> and \<open>la_scores\<close> map a student number to
  a dictionary from category key to score, \<open>tl_scores\<close> maps a student number to a score.
\<close>

type_synonym keyed_scores = "(pystr \<times> (pystr \<times> cell) list) list"

type_synonym direct_scores = "(pystr \<times> cell) list"

text \<open>The labels U+5F97 U+5206 (score) and U+8BA8 U+8BBA followed by \<open>/\<close> (discussion).\<close>

definition s_defen :: pystr where "s_defen = [0x5F97, 0x5206]"

definition s_taolun :: pystr where "s_taolun = [0x8BA8, 0x8BBA, 0x2F]"

text \<open>Lines 310 to 315 (and 350 to 355): the first column whose label holds the score keyword.\<close>

fun find_score_col :: "pystr list \<Rightarrow> pystr option" where
  "find_score_col [] = None"
| "find_score_col (col # cols) = (if py_in s_defen col then Some col else find_score_col cols)"

text \<open>\<open>Path(sa_file).name.replace('.xls', '')\<close>\<close>

definition category_key :: "xfile \<Rightarrow> pystr" where
  "category_key f = remove_sub (asc ''.xls'') (path_name (fpath f))"

text \<open>Lines 323 to 325: the student gets a dictionary when it has none, then the score is stored.\<close>

definition put_score :: "pystr \<Rightarrow> pystr \<Rightarrow> cell \<Rightarrow> keyed_scores \<Rightarrow> keyed_scores" where
  "put_score sid key score scores =
     (case map_of scores sid of
        None \<Rightarrow> AList.update sid (AList.update key score []) scores
      | Some d \<Rightarrow> AList.update sid (AList.update key score d) scores)"

text \<open>Lines 318 to 325: the loop over the rows of a score table.\<close>

fun keyed_rows ::
  "pystr list \<Rightarrow> pystr \<Rightarrow> pystr \<Rightarrow> cell list list \<Rightarrow> keyed_scores \<Rightarrow> keyed_scores \<times> error option" where
  "keyed_rows cols score_col key [] scores = (scores, None)"
| "keyed_rows cols score_col key (row # rest) scores =
     (case row_get cols row s_xuehao of
        Inl e \<Rightarrow> (scores, Some e)
      | Inr sid \<Rightarrow>
          if sid \<noteq> NaN then
            (case row_get cols row score_col of
               Inl e \<Rightarrow> (scores, Some e)
             | Inr score \<Rightarrow>
                 if score \<noteq> NaN then
                   keyed_rows cols score_col key rest
                     (put_score (py_strip (py_str sid)) key score scores)
                 else keyed_rows cols score_col key rest scores)
          else keyed_rows cols score_col key rest scores)"

text \<open>
  Lines 297 to 327, and the same code on \<open>la_scores\<close> in lines 337 to 367: the body of the
  loop over the files of a category keyed by file.  \<open>if score_col:\<close> holds for a label that
  is not empty.
\<close>

definition keyed_body :: "xfile \<Rightarrow> keyed_scores \<Rightarrow> keyed_scores \<times> error option" where
  "keyed_body f scores =
     (case try_engines (read_table f) (engines_for (fpath f)) of
        Inl e \<Rightarrow> (scores, Some e)
      | Inr df \<Rightarrow>
          (case find_score_col (df_columns df) of
             None \<Rightarrow> (scores, None)
           | Some score_col \<Rightarrow>
               if score_col \<noteq> [] then
                 keyed_rows (df_columns df) score_col (category_key f) (df_rows df) scores
               else (scores, None)))"

text \<open>Lines 392 to 396: the loop over the rows of a discussion table.\<close>

fun tl_rows :: "pystr list \<Rightarrow> cell list list \<Rightarrow> direct_scores \<Rightarrow> direct_scores \<times> error option" where
  "tl_rows cols [] tl_scores = (tl_scores, None)"
| "tl_rows cols (row # rest) tl_scores =
     (case row_get cols row s_xuehao of
        Inl e \<Rightarrow> (tl_scores, Some e)
      | Inr sid \<Rightarrow>
          if sid \<noteq> NaN then
            (case row_get cols row s_taolun of
               Inl e \<Rightarrow> (tl_scores, Some e)
             | Inr score \<Rightarrow>
                 if score \<noteq> NaN then
                   tl_rows cols rest (AList.update (py_strip (py_str sid)) score tl_scores)
                 else tl_rows cols rest tl_scores)
          else tl_rows cols rest tl_scores)"

text \<open>Lines 377 to 398: the body of the loop over the discussion files.\<close>

definition tl_body :: "xfile \<Rightarrow> direct_scores \<Rightarrow> direct_scores \<times> error option" where
  "tl_body f tl_scores =
     (case try_engines (read_table f) (engines_for (fpath f)) of
        Inl e \<Rightarrow> (tl_scores, Some e)
      | Inr df \<Rightarrow>
          if s_taolun \<in> set (df_columns df) then tl_rows (df_columns df) (df_rows df) tl_scores
          else (tl_scores, None))"

text \<open>
  The four loops of \<open>create_grade_summary\<close> over \<open>extractor.all_files\<close>, each on the files its
  filter keeps, from an empty collection.
\<close>

definition cl_files :: "xfile list \<Rightarrow> xfile list" where
  "cl_files all_files =
     filter (\<lambda>f. py_in (asc ''CL'') (fpath f) \<and> py_endswith (fpath f) (asc ''.xls'')) all_files"

definition sa_files :: "xfile list \<Rightarrow> xfile list" where
  "sa_files all_files =
     filter (\<lambda>f. py_in (asc ''SA'') (fpath f) \<and> py_endswith (fpath f) (asc ''.xls'')) all_files"

definition la_files :: "xfile list \<Rightarrow> xfile list" where
  "la_files all_files =
     filter (\<lambda>f. py_in (asc ''LA'') (fpath f) \<and> py_endswith (fpath f) (asc ''.xls'')) all_files"

definition tl_files :: "xfile list \<Rightarrow> xfile list" where
  "tl_files all_files = filter (\<lambda>f. py_in (asc ''TL'') (fpath f)) all_files"

definition collect_cl :: "xfile list \<Rightarrow> student list \<times> pystr list" where
  "collect_cl all_files = for_each_file cl_body (cl_files all_files) ([], [])"

definition collect_sa :: "xfile list \<Rightarrow> keyed_scores \<times> pystr list" where
  "collect_sa all_files = for_each_file keyed_body (sa_files all_files) ([], [])"

definition collect_la :: "xfile list \<Rightarrow> keyed_scores \<times> pystr list" where
  "collect_la all_files = for_each_file keyed_body (la_files all_files) ([], [])"

definition collect_tl :: "xfile list \<Rightarrow> direct_scores \<times> pystr list" where
  "collect_tl all_files = for_each_file tl_body (tl_files all_files) ([], [])"

section \<open>Table Merger\<close>

text \<open>
  Line 406: the seven fixed columns U+5E8F U+53F7, U+539F U+5E8F U+53F7, U+5B66 U+53F7,
  U+59D3 U+540D, U+73ED U+7EA7, U+6027 U+522B, U+6765 U+6E90 U+6587 U+4EF6; line 417: the
  discussion column \<open>TL\<close> U+8BA8 U+8BBA.
\<close>

definition fixed_columns :: "pystr list" where
  "fixed_columns =
     [s_xuhao, [0x539F, 0x5E8F, 0x53F7], s_xuehao, s_xingming, s_banji, s_xingbie,
      [0x6765, 0x6E90, 0x6587, 0x4EF6]]"

definition tl_column :: pystr where
  "tl_column = [0x54, 0x4C, 0x8BA8, 0x8BBA]"

text \<open>Lines 409 and 413: \<open>sorted(list(set(...)))\<close> of the category keys of every student.\<close>

definition category_keys :: "keyed_scores \<Rightarrow> pystr list" where
  "category_keys scores =
     sorted_list_of_set (set (concat (map (\<lambda>(sid, d). map fst d) scores)))"

text \<open>Lines 436 to 439: one score cell, zero when the student or the category has no entry.\<close>

definition keyed_cell :: "keyed_scores \<Rightarrow> pystr \<Rightarrow> pystr \<Rightarrow> cell" where
  "keyed_cell scores sid key =
     (case map_of scores sid of
        None \<Rightarrow> Num 0
      | Some d \<Rightarrow> (case map_of d key of None \<Rightarrow> Num 0 | Some score \<Rightarrow> score))"

text \<open>Lines 423 to 450: the row of the student numbered \<open>i\<close>.\<close>

definition summary_row ::
  "pystr list \<Rightarrow> pystr list \<Rightarrow> keyed_scores \<Rightarrow> keyed_scores \<Rightarrow> direct_scores \<Rightarrow>
   nat \<Rightarrow> student \<Rightarrow> cell list" where
  "summary_row all_sa_files all_la_files sa_scores la_scores tl_scores i s =
     [Num (int i), Str (original_seq s), Str (student_id s), Str (student_name s),
      Str (class_info s), Str (gender_info s), Str (source_file s)]
     @ map (keyed_cell sa_scores (student_id s)) all_sa_files
     @ map (keyed_cell la_scores (student_id s)) all_la_files
     @ [case map_of tl_scores (student_id s) of None \<Rightarrow> Num 0 | Some score \<Rightarrow> score]"

text \<open>Lines 420 to 452: the loop over \<open>enumerate(cl_students, 1)\<close>.\<close>

definition summary_data ::
  "student list \<Rightarrow> pystr list \<Rightarrow> pystr list \<Rightarrow> keyed_scores \<Rightarrow> keyed_scores \<Rightarrow> direct_scores \<Rightarrow>
   cell list list" where
  "summary_data cl_students all_sa_files all_la_files sa_scores la_scores tl_scores =
     map (\<lambda>(i, s). summary_row all_sa_files all_la_files sa_scores la_scores tl_scores i s)
       (zip [1 ..< Suc (length cl_students)] cl_students)"

text \<open>Lines 405 to 455: the merged frame from the four collections.\<close>

definition merge_tables ::
  "student list \<Rightarrow> keyed_scores \<Rightarrow> keyed_scores \<Rightarrow> direct_scores \<Rightarrow> table" where
  "merge_tables cl_students sa_scores la_scores tl_scores =
     (let all_sa_files = category_keys sa_scores;
          all_la_files = category_keys la_scores
      in \<lparr>df_columns = fixed_columns @ all_sa_files @ all_la_files @ [tl_column],
          df_rows = summary_data cl_students all_sa_files all_la_files
                      sa_scores la_scores tl_scores\<rparr>)"

definition create_grade_summary :: "xfile list \<Rightarrow> table" where
  "create_grade_summary all_files =
     merge_tables (fst (collect_cl all_files)) (fst (collect_sa all_files))
       (fst (collect_la all_files)) (fst (collect_tl all_files))"

section \<open>Export\<close>

text \<open>
  Lines 474 to 490, the console output left out: \<open>to_excel\<close> writes the frame, its header row
  and its rows, under the given name.  The files written so far are a list of names and frames.
\<close>

definition output_filename_default :: pystr where
  "output_filename_default =
     [0x5B66, 0x751F, 0x6210, 0x7EE9, 0x6C47, 0x603B, 0x8868] @ asc ''.xlsx''"

definition export_summary_with_stats ::
  "table \<Rightarrow> pystr \<Rightarrow> (pystr \<times> table) list \<Rightarrow> (pystr \<times> table) list" where
  "export_summary_with_stats summary_df output_filename written =
     (if length (df_rows summary_df) = 0 then written
      else written @ [(output_filename, summary_df)])"

definition main :: "xfile list \<Rightarrow> (pystr \<times> table) list" where
  "main all_files =
     export_summary_with_stats (create_grade_summary all_files) output_filename_default []"

section \<open>Vocabulary of the properties\<close>

text \<open>The number of cells of a row that \<open>header_field\<close> takes for a header: \<open>found_headers\<close>.\<close>

definition matched_cells :: "pystr list \<Rightarrow> nat" where
  "matched_cells row = length (filter (\<lambda>c. header_field c \<noteq> None) row)"

text \<open>The number of distinct fields the cells of a row are taken for.\<close>

definition distinct_fields :: "pystr list \<Rightarrow> nat" where
  "distinct_fields row = length (remdups (List.map_filter header_field row))"

text \<open>A sheet with a title row, and a header row in which two cells name the student number.\<close>

definition sheet_two_id_columns :: grid where
  "sheet_two_id_columns =
     [[Str (asc ''Roster 2023''), NaN, NaN],
      [Str (asc ''Student ID''), Str (asc ''Name''), Str (asc '' id '')],
      [Str (asc ''2023A0001''), Str (asc ''Alice''), NaN]]"

text \<open>A sheet whose first row has two cells, both naming the student number.\<close>

definition sheet_id_twice :: grid where
  "sheet_id_twice = [[Str (asc ''id''), Str (asc ''ID'')], [Str (asc ''x''), Str (asc ''2023A0001'')]]"

text \<open>
  The clauses of a valid identifier in the words of the specification: not empty, not the
  missing marker, at least 8 long, with a digit, and with a character that is not a digit
  once every \<open>.\<close> and \<open>-\<close> is taken out.
\<close>

definition identifier_clauses :: "pystr \<Rightarrow> bool" where
  "identifier_clauses s =
     (s \<noteq> [] \<and> s \<noteq> s_nan \<and> 8 \<le> length s \<and> list_ex isdigit_char s \<and>
      list_ex (\<lambda>c. \<not> isdigit_char c) (remove_char 45 (remove_char 46 s)))"

text \<open>
  The header U+5E8F U+53F7, U+5B66 U+53F7, U+59D3 U+540D, U+73ED U+7EA7, U+6027 U+522B over the
  rows \<open>1, 20230001A, Alice, ClassX, F\<close> and \<open>2, abc, Bob, ClassY, M\<close>.
\<close>

definition sheet_scenario :: grid where
  "sheet_scenario =
     [[Str s_xuhao, Str s_xuehao, Str s_xingming, Str s_banji, Str s_xingbie],
      [Num 1, Str (asc ''20230001A''), Str (asc ''Alice''), Str (asc ''ClassX''), Str (asc ''F'')],
      [Num 2, Str (asc ''abc''), Str (asc ''Bob''), Str (asc ''ClassY''), Str (asc ''M'')]]"

text \<open>A header row over one row whose student number is seven characters after a blank.\<close>

definition sheet_padded_id :: grid where
  "sheet_padded_id =
     [[Str (asc ''Student ID''), Str (asc ''Name'')],
      [Str (asc '' 123456a''), Str (asc ''Bob'')]]"

text \<open>
  Two sheets without a header row: one cell names the student number and the row below holds
  a student.  In the first the name comes before the gender (U+7537), in the second after it.
\<close>

definition sheet_name_then_gender :: grid where
  "sheet_name_then_gender =
     [[Str (asc ''Student ID''), NaN, NaN, NaN],
      [Str (asc ''2023A0001''), Str (asc ''Alice''), Str s_nan_male, Num 3]]"

definition sheet_gender_then_name :: grid where
  "sheet_gender_then_name =
     [[Str (asc ''Student ID''), NaN, NaN],
      [Str (asc ''2023A0001''), Str s_nan_male, Str (asc ''Alice'')]]"

text \<open>
  The score entries of a table in the words of the specification: for every row whose
  student number and score are both present, the stripped student number with the score, in
  row order; nothing when the table lacks one of the two columns.
\<close>

definition cell_at :: "pystr list \<Rightarrow> cell list \<Rightarrow> pystr \<Rightarrow> cell" where
  "cell_at cols row l = (case row_get cols row l of Inl e \<Rightarrow> NaN | Inr c \<Rightarrow> c)"

definition table_entries :: "pystr list \<Rightarrow> pystr \<Rightarrow> cell list list \<Rightarrow> (pystr \<times> cell) list" where
  "table_entries cols score_col rows =
     (if s_xuehao \<in> set cols \<and> score_col \<in> set cols then
        map (\<lambda>row. (py_strip (py_str (cell_at cols row s_xuehao)), cell_at cols row score_col))
          (filter (\<lambda>row. cell_at cols row s_xuehao \<noteq> NaN \<and> cell_at cols row score_col \<noteq> NaN) rows)
      else [])"

text \<open>The entries of a file of a category keyed by file, and of a discussion file.\<close>

definition keyed_file_entries :: "xfile \<Rightarrow> (pystr \<times> cell) list" where
  "keyed_file_entries f =
     (case try_engines (read_table f) (engines_for (fpath f)) of
        Inl e \<Rightarrow> []
      | Inr df \<Rightarrow>
          (case find_score_col (df_columns df) of
             None \<Rightarrow> []
           | Some score_col \<Rightarrow> table_entries (df_columns df) score_col (df_rows df)))"

definition tl_file_entries :: "xfile \<Rightarrow> (pystr \<times> cell) list" where
  "tl_file_entries f =
     (case try_engines (read_table f) (engines_for (fpath f)) of
        Inl e \<Rightarrow> []
      | Inr df \<Rightarrow> table_entries (df_columns df) s_taolun (df_rows df))"

text \<open>The score a keyed collection holds for a student in a category, if any.\<close>

definition score_entry :: "keyed_scores \<Rightarrow> pystr \<Rightarrow> pystr \<Rightarrow> cell option" where
  "score_entry scores sid key =
     (case map_of scores sid of None \<Rightarrow> None | Some d \<Rightarrow> map_of d key)"

text \<open>
  A score file \<open>SA1.xls\<close> with the columns U+5B66 U+53F7, \<open>SA1\<close> U+5F97 U+5206 and a second
  column with U+5F97 U+5206 in its label.
\<close>

definition table_two_score_columns :: table where
  "table_two_score_columns =
     \<lparr>df_columns = [s_xuehao, asc ''SA1'' @ s_defen, s_defen @ asc ''2''],
      df_rows = [[Str (asc ''20230001A''), Num 85, Num 10],
                 [Str (asc ''20230002B''), NaN, Num 20]]\<rparr>"

definition file_sa1 :: xfile where
  "file_sa1 =
     \<lparr>fpath = asc ''SA1.xls'', read_grid = (\<lambda>e. None),
      read_table = (\<lambda>e. Some table_two_score_columns)\<rparr>"

text \<open>Two students, and scores of which one belongs to a student that is on no roster.\<close>

definition roster_two :: "student list" where
  "roster_two =
     [\<lparr>student_id = asc ''20230001A'', student_name = asc ''Alice'', original_seq = asc ''1'',
       class_info = asc ''ClassX'', gender_info = asc ''F'', source_file = asc ''CL1.xls''\<rparr>,
      \<lparr>student_id = asc ''20230002B'', student_name = asc ''Bob'', original_seq = asc ''2'',
       class_info = asc ''ClassY'', gender_info = asc ''M'', source_file = asc ''CL1.xls''\<rparr>]"

definition sa_example :: keyed_scores where
  "sa_example =
     [(asc ''20230001A'', [(asc ''SA1'', Num 85)]),
      (asc ''20239999Z'', [(asc ''SA1'', Num 70), (asc ''SA2'', Num 60)])]"

text \<open>
  A roster file holding the scenario sheet, a roster file no engine can read, and a score file
  \<open>LA1.xls\<close> with one entry.
\<close>

definition file_cl1 :: xfile where
  "file_cl1 =
     \<lparr>fpath = asc ''CL1.xls'', read_grid = (\<lambda>e. Some sheet_scenario),
      read_table = (\<lambda>e. None)\<rparr>"


definition file_la1 :: xfile where
  "file_la1 =
     \<lparr>fpath = asc ''LA1.xls'', read_grid = (\<lambda>e. None),
      read_table = (\<lambda>e. Some \<lparr>df_columns = [s_xuehao, s_defen],
                                 df_rows = [[Str (asc ''20230001A''), Num 90]]\<rparr>)\<rparr>"


definition file_tl1 :: xfile where
  "file_tl1 =
     \<lparr>fpath = asc ''TL1.xlsx'', read_grid = (\<lambda>e. None),
      read_table = (\<lambda>e. Some \<lparr>df_columns = [s_xuehao, s_taolun],
                                 df_rows = [[Str (asc ''20230001A''), Num 3],
                                            [Str (asc ''20230002B''), Num 4]]\<rparr>)\<rparr>"

definition file_tl2 :: xfile where
  "file_tl2 =
     \<lparr>fpath = asc ''TL2.xlsx'', read_grid = (\<lambda>e. None),
      read_table = (\<lambda>e. Some \<lparr>df_columns = [s_xuehao, s_taolun],
                                 df_rows = [[Str (asc ''20230001A''), Num 5]]\<rparr>)\<rparr>"

text \<open>
  Two score files of one directory, \<open>SA1.xls\<close> and \<open>SA1.xls.xls\<close>, whose category keys are
  both \<open>SA1\<close>, each with a score of the same student.
\<close>

definition file_sa1_first :: xfile where
  "file_sa1_first =
     \<lparr>fpath = asc ''SA1.xls'', read_grid = (\<lambda>e. None),
      read_table = (\<lambda>e. Some \<lparr>df_columns = [s_xuehao, s_defen],
                                 df_rows = [[Str (asc ''20230001A''), Num 1]]\<rparr>)\<rparr>"

definition file_sa1_second :: xfile where
  "file_sa1_second =
     \<lparr>fpath = asc ''SA1.xls.xls'', read_grid = (\<lambda>e. None),
      read_table = (\<lambda>e. Some \<lparr>df_columns = [s_xuehao, s_defen],
                                 df_rows = [[Str (asc ''20230001A''), Num 2]]\<rparr>)\<rparr>"

definition file_sa2 :: xfile where
  "file_sa2 =
     \<lparr>fpath = asc ''SA2.xls'', read_grid = (\<lambda>e. None),
      read_table = (\<lambda>e. Some \<lparr>df_columns = [s_xuehao, s_defen],
                                 df_rows = [[Str (asc ''20230001A''), Num 7]]\<rparr>)\<rparr>"

text \<open>The scenario header over two students with valid student numbers, \<open>F\<close> and \<open>M\<close>.\<close>

definition sheet_two_students :: grid where
  "sheet_two_students =
     [[Str s_xuhao, Str s_xuehao, Str s_xingming, Str s_banji, Str s_xingbie],
      [Num 1, Str (asc ''20230001A''), Str (asc ''Alice''), Str (asc ''ClassX''), Str (asc ''F'')],
      [Num 2, Str (asc ''20230002B''), Str (asc ''Bob''), Str (asc ''ClassY''), Str (asc ''M'')]]"

text \<open>The scores of the example without the student that is on no roster.\<close>

definition sa_roster_only :: keyed_scores where
  "sa_roster_only = [(asc ''20230001A'', [(asc ''SA1'', Num 85)])]"

chapter \<open>Properties\<close>

section \<open>Header Locator\<close>

lemma scan_cells_count:
  "snd (scan_cells j cs (m, n)) = n + matched_cells cs"
  by (induction cs arbitrary: j m n) (auto simp: matched_cells_def split: option.splits)

lemma scan_cells_append:
  "scan_cells j (xs @ ys) st = scan_cells (j + length xs) ys (scan_cells j xs st)"
  by (induction j xs st rule: scan_cells.induct) (auto split: option.splits)

lemma scan_cells_no_match:
  "\<forall>c \<in> set cs. header_field c \<noteq> Some f \<Longrightarrow> fst (scan_cells j cs (m, n)) f = m f"
  by (induction cs arbitrary: j m n) (auto split: option.splits)

lemma scan_cells_last_match:
  assumes "header_field c = Some f" and "\<forall>c' \<in> set post. header_field c' \<noteq> Some f"
  shows "fst (scan_cells j (pre @ c # post) st) f = Some (j + length pre)"
proof -
  obtain m n where st: "scan_cells j pre st = (m, n)" by (cases "scan_cells j pre st")
  show ?thesis
    using assms by (simp add: scan_cells_append st scan_cells_no_match)
qed

lemma last_match_split:
  "\<exists>c \<in> set cs. P c \<Longrightarrow> \<exists>pre c post. cs = pre @ c # post \<and> P c \<and> (\<forall>c' \<in> set post. \<not> P c')"
  by (metis split_list_last_prop)

lemma scan_cells_mapping:
  "fst (scan_cells 0 cs (Map.empty, 0)) f = Some k \<longleftrightarrow>
     k < length cs \<and> header_field (cs ! k) = Some f \<and>
     (\<forall>k'. k < k' \<and> k' < length cs \<longrightarrow> header_field (cs ! k') \<noteq> Some f)"
  (is "?L \<longleftrightarrow> ?R")
proof
  assume L: ?L
  have "\<exists>c \<in> set cs. header_field c = Some f"
  proof (rule ccontr)
    assume "\<not> ?thesis"
    then have "fst (scan_cells 0 cs (Map.empty, 0)) f = None"
      by (simp add: scan_cells_no_match)
    with L show False by simp
  qed
  then obtain pre c post where sp: "cs = pre @ c # post" "header_field c = Some f"
      "\<forall>c' \<in> set post. header_field c' \<noteq> Some f"
    using last_match_split [of cs "\<lambda>c. header_field c = Some f"] by blast
  then have "fst (scan_cells 0 cs (Map.empty, 0)) f = Some (length pre)"
    using scan_cells_last_match [of c f post 0 pre] by simp
  with L have k: "k = length pre" by simp
  have "\<And>k'. k < k' \<Longrightarrow> k' < length cs \<Longrightarrow> header_field (cs ! k') \<noteq> Some f"
  proof -
    fix k' assume a: "k < k'" "k' < length cs"
    then have "cs ! k' = post ! (k' - Suc k)" "k' - Suc k < length post"
      using sp(1) k by (auto simp: nth_append nth_Cons')
    then show "header_field (cs ! k') \<noteq> Some f" using sp(3) by (metis nth_mem)
  qed
  then show ?R using sp k by (auto simp: nth_append)
next
  assume R: ?R
  define pre where "pre = take k cs"
  define post where "post = drop (Suc k) cs"
  have sp: "cs = pre @ cs ! k # post"
    using R by (simp add: pre_def post_def id_take_nth_drop)
  have "\<forall>c' \<in> set post. header_field c' \<noteq> Some f"
  proof
    fix c' assume "c' \<in> set post"
    then obtain i where i: "i < length post" "c' = post ! i" by (metis in_set_conv_nth)
    then have "c' = cs ! (Suc k + i)" "Suc k + i < length cs"
      by (auto simp: post_def)
    then show "header_field c' \<noteq> Some f" using R by auto
  qed
  then have "fst (scan_cells 0 (pre @ cs ! k # post) (Map.empty, 0)) f = Some (0 + length pre)"
    using R scan_cells_last_match [of "cs ! k" f post 0 pre] by blast
  moreover have "length pre = k" using R by (simp add: pre_def)
  ultimately show ?L using sp by simp
qed

lemma find_header_None:
  "find_header df is = (None, m) \<Longrightarrow>
     m = Map.empty \<and> (\<forall>i \<in> set is. matched_cells (row_data df i) < 2)"
proof (induction "is")
  case Nil
  then show ?case by simp
next
  case (Cons i "is")
  obtain tm fh where sc: "scan_cells 0 (row_data df i) (Map.empty, 0) = (tm, fh)"
    by (cases "scan_cells 0 (row_data df i) (Map.empty, 0)")
  have "fh = matched_cells (row_data df i)"
    using scan_cells_count [of 0 "row_data df i" Map.empty 0] sc by simp
  with Cons sc show ?case by (auto split: if_splits)
qed

lemma find_header_Some:
  "find_header df is = (Some h, m) \<Longrightarrow>
     \<exists>pre post. is = pre @ h # post \<and> (\<forall>i \<in> set pre. matched_cells (row_data df i) < 2) \<and>
       2 \<le> matched_cells (row_data df h) \<and> m = fst (scan_cells 0 (row_data df h) (Map.empty, 0))"
proof (induction "is")
  case Nil
  then show ?case by simp
next
  case (Cons i "is")
  obtain tm fh where sc: "scan_cells 0 (row_data df i) (Map.empty, 0) = (tm, fh)"
    by (cases "scan_cells 0 (row_data df i) (Map.empty, 0)")
  have fh: "fh = matched_cells (row_data df i)"
    using scan_cells_count [of 0 "row_data df i" Map.empty 0] sc by simp
  show ?case
  proof (cases "2 \<le> fh")
    case True
    with Cons.prems sc have "h = i" "m = tm" by auto
    with True fh sc have "i # is = [] @ h # is \<and> (\<forall>i \<in> set []. matched_cells (row_data df i) < 2) \<and>
       2 \<le> matched_cells (row_data df h) \<and> m = fst (scan_cells 0 (row_data df h) (Map.empty, 0))"
      by simp
    then show ?thesis by blast
  next
    case False
    with Cons.prems sc have "find_header df is = (Some h, m)" by simp
    from Cons.IH [OF this] obtain pre post where
      "is = pre @ h # post" "\<forall>i \<in> set pre. matched_cells (row_data df i) < 2"
      "2 \<le> matched_cells (row_data df h)" "m = fst (scan_cells 0 (row_data df h) (Map.empty, 0))"
      by blast
    with False fh have "i # is = (i # pre) @ h # post \<and>
       (\<forall>i \<in> set (i # pre). matched_cells (row_data df i) < 2) \<and>
       2 \<le> matched_cells (row_data df h) \<and> m = fst (scan_cells 0 (row_data df h) (Map.empty, 0))"
      by simp
    then show ?thesis by blast
  qed
qed

lemma upt_split_at:
  assumes "[0 ..< n] = pre @ h # post"
  shows "pre = [0 ..< h] \<and> h < n"
proof -
  have len: "length pre < n" using arg_cong [OF assms, of length] by simp
  have "[0 ..< n] ! length pre = h" using assms by (simp add: nth_append)
  with len have h: "h = length pre" by simp
  have "take h [0 ..< n] = pre" using assms h by simp
  with len h show ?thesis by (simp add: take_upt)
qed

text \<open>
  C3 (as the code has it).  The Header Locator scans the first 20 rows and returns the index of
  the first row in which at least two cells are taken for a header, each cell being taken for
  at most one field, the first of student number, name, class, gender, sequence whose keyword
  it contains; two cells taken for the same field both count.  The mapping holds exactly the
  fields some cell of that row is taken for, each with the rightmost such column.  When no row
  of the window has two such cells the result is no row and the empty mapping.
\<close>

theorem header_locator_first_row_with_two_header_cells:
  assumes "header_locator df = (header_row_idx, col_mapping)"
  shows "case header_row_idx of
     None \<Rightarrow>
        col_mapping = Map.empty \<and>
        (\<forall>i < min 20 (length df). matched_cells (row_data df i) < 2)
   | Some h \<Rightarrow>
        h < min 20 (length df) \<and>
        2 \<le> matched_cells (row_data df h) \<and>
        (\<forall>i < h. matched_cells (row_data df i) < 2) \<and>
        (\<forall>f k. col_mapping f = Some k \<longleftrightarrow>
           k < length (row_data df h) \<and> header_field (row_data df h ! k) = Some f \<and>
           (\<forall>k'. k < k' \<and> k' < length (row_data df h) \<longrightarrow>
              header_field (row_data df h ! k') \<noteq> Some f))"
proof (cases header_row_idx)
  case None
  with assms have "find_header df [0 ..< min 20 (length df)] = (None, col_mapping)"
    by (simp add: header_locator_def)
  from find_header_None [OF this] show ?thesis using None by simp
next
  case (Some h)
  with assms have "find_header df [0 ..< min 20 (length df)] = (Some h, col_mapping)"
    by (simp add: header_locator_def)
  from find_header_Some [OF this] obtain pre post where
    sp: "[0 ..< min 20 (length df)] = pre @ h # post"
    and pre: "\<forall>i \<in> set pre. matched_cells (row_data df i) < 2"
    and two: "2 \<le> matched_cells (row_data df h)"
    and m: "col_mapping = fst (scan_cells 0 (row_data df h) (Map.empty, 0))"
    by blast
  from upt_split_at [OF sp] have "pre = [0 ..< h]" "h < min 20 (length df)" by simp_all
  with pre two m show ?thesis
    using Some by (simp add: scan_cells_mapping)
qed

theorem header_locator_first_row_witness:
  "fst (header_locator sheet_two_id_columns) = Some 1 \<and>
   matched_cells (row_data sheet_two_id_columns 0) < 2 \<and>
   2 \<le> matched_cells (row_data sheet_two_id_columns 1) \<and>
   snd (header_locator sheet_two_id_columns) Xuehao = Some 2 \<and>
   snd (header_locator sheet_two_id_columns) Xingming = Some 1"
proof -
  have e: "fst (header_locator sheet_two_id_columns) = Some 1" by code_simp
  have r: "row_data sheet_two_id_columns 1 = [asc ''Student ID'', asc ''Name'', asc '' id '']"
    by code_simp
  have h: "header_field (asc ''Student ID'') = Some Xuehao" "header_field (asc ''Name'') = Some Xingming"
    "header_field (asc '' id '') = Some Xuehao"
    by code_simp+
  have hl: "header_locator sheet_two_id_columns = (Some 1, snd (header_locator sheet_two_id_columns))"
    using e by (metis prod.collapse)
  from header_locator_first_row_with_two_header_cells [OF hl]
  have c: "2 \<le> matched_cells (row_data sheet_two_id_columns 1)"
    "\<forall>i < 1. matched_cells (row_data sheet_two_id_columns i) < 2"
    "\<And>f k. snd (header_locator sheet_two_id_columns) f = Some k \<longleftrightarrow>
           k < length (row_data sheet_two_id_columns 1) \<and>
           header_field (row_data sheet_two_id_columns 1 ! k) = Some f \<and>
           (\<forall>k'. k < k' \<and> k' < length (row_data sheet_two_id_columns 1) \<longrightarrow>
              header_field (row_data sheet_two_id_columns 1 ! k') \<noteq> Some f)"
    by simp_all
  have "snd (header_locator sheet_two_id_columns) Xuehao = Some 2"
    unfolding c(3) r using h by (simp add: nth_Cons')
  moreover have "snd (header_locator sheet_two_id_columns) Xingming = Some 1"
    unfolding c(3) r using h by (auto simp: nth_Cons' less_Suc_eq numeral_3_eq_3)
  ultimately show ?thesis using e c(1,2) by simp
qed

text \<open>
  C3 as stated asks for two distinct fields.  A row whose only two header cells both name the
  student number is accepted, although one field is matched in it.
\<close>

theorem header_locator_distinct_fields_counterexample:
  "fst (header_locator sheet_id_twice) = Some 0 \<and>
   distinct_fields (row_data sheet_id_twice 0) = 1 \<and>
   snd (header_locator sheet_id_twice) Xuehao = Some 1"
  by code_simp

section \<open>Roster Extractor, mapped path\<close>

lemma dot_and_dash_no_digits: "\<not> isdigit_char 46" "\<not> isdigit_char 45"
  by code_simp+

lemma digit_survives_removal:
  "list_ex isdigit_char s \<Longrightarrow> list_ex isdigit_char (remove_char 45 (remove_char 46 s))"
  using dot_and_dash_no_digits by (induction s) (auto simp: remove_char_def)

lemma not_all_is_some_not: "(\<not> list_all P xs) = list_ex (\<lambda>x. \<not> P x) xs"
  by (induction xs) auto

lemma valid_student_id_clauses: "valid_student_id s = identifier_clauses s"
proof (cases "list_ex isdigit_char s")
  case True
  from digit_survives_removal [OF this] have "remove_char 45 (remove_char 46 s) \<noteq> []" by auto
  then show ?thesis
    using not_all_is_some_not [of isdigit_char "remove_char 45 (remove_char 46 s)"]
    unfolding valid_student_id_def identifier_clauses_def py_isdigit_def
    by blast
next
  case False
  then show ?thesis by (simp add: valid_student_id_def identifier_clauses_def)
qed

lemma mapped_rows_concat:
  "mapped_rows m c fname df is acc =
     acc @ concat (map (\<lambda>i. mapped_row m c fname (row_data df i)) is)"
  by (induction "is" arbitrary: acc) simp_all

lemma header_column_in_row:
  assumes "header_locator df = (Some h, col_mapping)" and "col_mapping f = Some c"
  shows "h < length df \<and> c < length (df ! h)"
proof -
  have "find_header df [0 ..< min 20 (length df)] = (Some h, col_mapping)"
    using assms(1) by (simp add: header_locator_def)
  from find_header_Some [OF this] obtain pre post where
    sp: "[0 ..< min 20 (length df)] = pre @ h # post"
    and m: "col_mapping = fst (scan_cells 0 (row_data df h) (Map.empty, 0))"
    by blast
  from upt_split_at [OF sp] have "h < min 20 (length df)" by simp
  moreover have "c < length (row_data df h)"
    using assms(2) m by (simp add: scan_cells_mapping)
  ultimately show ?thesis by (simp add: row_data_def)
qed

text \<open>
  C1 (as the code has it).  On the mapped path, every row of the window of 30 rows after the
  header row adds exactly one record when the text of its cell in the student-number column,
  with the surrounding whitespace stripped, meets every clause of a valid identifier, and no
  record otherwise; the records come in row order and the scan goes through the whole window.
\<close>

theorem mapped_path_one_record_per_valid_row:
  assumes "header_locator df = (Some h, col_mapping)"
    and "col_mapping Xuehao = Some c"
    and "\<forall>r \<in> set df. length r = w"
  shows "extract_students fname df cl_students =
     cl_students @
     concat (map (\<lambda>i.
         if identifier_clauses (py_strip (py_str (df ! i ! c))) then
           [\<lparr>student_id = py_strip (py_str (df ! i ! c)),
             student_name = mapped_value col_mapping Xingming (row_data df i),
             original_seq = mapped_seq col_mapping (row_data df i),
             class_info = mapped_value col_mapping Banji (row_data df i),
             gender_info = mapped_value col_mapping Xingbie (row_data df i),
             source_file = fname\<rparr>]
         else [])
       [h + 1 ..< min (h + 31) (length df)])"
proof -
  from header_column_in_row [OF assms(1,2)] have h: "h < length df" "c < length (df ! h)" by simp_all
  with assms(3) have cw: "c < w" by (metis nth_mem)
  have row: "mapped_row col_mapping c fname (row_data df i) =
      (if identifier_clauses (py_strip (py_str (df ! i ! c))) then
           [\<lparr>student_id = py_strip (py_str (df ! i ! c)),
             student_name = mapped_value col_mapping Xingming (row_data df i),
             original_seq = mapped_seq col_mapping (row_data df i),
             class_info = mapped_value col_mapping Banji (row_data df i),
             gender_info = mapped_value col_mapping Xingbie (row_data df i),
             source_file = fname\<rparr>]
         else [])" if "i \<in> set [h + 1 ..< min (h + 31) (length df)]" for i
  proof -
    from that have "i < length df" by simp
    with assms(3) cw have "c < length (df ! i)" by (metis nth_mem)
    then show ?thesis
      by (simp add: mapped_row_def row_data_def valid_student_id_clauses Let_def)
  qed
  have "extract_students fname df cl_students =
      cl_students @ concat (map (\<lambda>i. mapped_row col_mapping c fname (row_data df i))
        [h + 1 ..< min (h + 31) (length df)])"
    using assms(1,2) by (simp add: extract_students_def mapped_rows_concat)
  also have "map (\<lambda>i. mapped_row col_mapping c fname (row_data df i))
        [h + 1 ..< min (h + 31) (length df)] =
      map (\<lambda>i. if identifier_clauses (py_strip (py_str (df ! i ! c))) then
           [\<lparr>student_id = py_strip (py_str (df ! i ! c)),
             student_name = mapped_value col_mapping Xingming (row_data df i),
             original_seq = mapped_seq col_mapping (row_data df i),
             class_info = mapped_value col_mapping Banji (row_data df i),
             gender_info = mapped_value col_mapping Xingbie (row_data df i),
             source_file = fname\<rparr>]
         else []) [h + 1 ..< min (h + 31) (length df)]"
    using row by (intro map_cong refl)
  finally show ?thesis .
qed

theorem mapped_path_scenario_witness:
  "map student_id (extract_students (asc ''CL1.xls'') sheet_scenario []) = [asc ''20230001A''] \<and>
   identifier_clauses (py_strip (py_str (sheet_scenario ! 1 ! 1))) \<and>
   \<not> identifier_clauses (py_strip (py_str (sheet_scenario ! 2 ! 1)))"
proof -
  have e: "fst (header_locator sheet_scenario) = Some 0" by code_simp
  have c: "snd (header_locator sheet_scenario) Xuehao = Some 1" by code_simp
  have hl: "header_locator sheet_scenario = (Some 0, snd (header_locator sheet_scenario))"
    using e by (metis prod.collapse)
  have rect: "\<forall>r \<in> set sheet_scenario. length r = 5" by (simp add: sheet_scenario_def)
  have win: "[0 + 1 ..< min (0 + 31) (length sheet_scenario)] = [1, 2]" by code_simp
  have r1: "identifier_clauses (py_strip (py_str (sheet_scenario ! 1 ! 1)))" by code_simp
  have r2: "\<not> identifier_clauses (py_strip (py_str (sheet_scenario ! 2 ! 1)))" by code_simp
  have v: "py_strip (py_str (sheet_scenario ! 1 ! 1)) = asc ''20230001A''" by code_simp
  show ?thesis
    unfolding mapped_path_one_record_per_valid_row [OF hl c rect] win
    using r1 r2 v by simp
qed

text \<open>
  C1 as stated reads the clauses on the cell itself.  A cell of eight characters, a blank and
  then \<open>123456a\<close>, meets every clause, and the row adds no record: the stripped text is seven
  characters long.
\<close>

theorem mapped_path_unstripped_cell_counterexample:
  "fst (header_locator sheet_padded_id) = Some 0 \<and>
   snd (header_locator sheet_padded_id) Xuehao = Some 0 \<and>
   identifier_clauses (py_str (sheet_padded_id ! 1 ! 0)) \<and>
   length (extract_students (asc ''CL1.xls'') sheet_padded_id []) = 0"
  by code_simp

section \<open>Gender of the extracted records\<close>

lemma infer_cell_gender:
  "fst (snd (snd info)) \<in> {[], s_nan_male, s_nv_female} \<Longrightarrow>
   fst (snd (snd (infer_cell v info))) \<in> {[], s_nan_male, s_nv_female}"
  by (cases info) (auto simp: infer_cell_def Let_def)

lemma infer_cells_gender:
  "fst (snd (snd info)) \<in> {[], s_nan_male, s_nv_female} \<Longrightarrow>
   fst (snd (snd (infer_cells c k row info))) \<in> {[], s_nan_male, s_nv_female}"
proof (induction row arbitrary: k info)
  case Nil
  then show ?case by simp
next
  case (Cons x row)
  show ?case
    using Cons.IH Cons.prems infer_cell_gender [of info "py_strip x"] by simp
qed

lemma fallback_row_gender:
  assumes "r \<in> set (fallback_row c fname row)"
  shows "gender_info r \<in> {[], s_nan_male, s_nv_female}"
proof -
  obtain name seq gender cls where i: "infer_cells c 0 row ([], [], [], []) = (name, seq, gender, cls)"
    by (cases "infer_cells c 0 row ([], [], [], [])") auto
  have "gender \<in> {[], s_nan_male, s_nv_female}"
    using infer_cells_gender [of "([], [], [], [])" c 0 row] i by simp
  moreover have "gender_info r = gender"
  proof -
    have "fallback_row c fname row = [] \<or> fallback_row c fname row =
        [\<lparr>student_id = py_strip (row ! c), student_name = name, original_seq = seq,
          class_info = cls, gender_info = gender, source_file = fname\<rparr>]"
      by (simp add: fallback_row_def Let_def i)
    with assms show ?thesis by auto
  qed
  ultimately show ?thesis by simp
qed

lemma fallback_rows_concat:
  "fallback_rows c fname df is acc =
     acc @ concat (map (\<lambda>i. if i < length df then fallback_row c fname (row_data df i) else []) is)"
  by (induction "is" arbitrary: acc) simp_all

lemma fallback_rows_members:
  "r \<in> set (fallback_rows c fname df is acc) \<Longrightarrow>
   r \<in> set acc \<or> (\<exists>i \<in> set is. i < length df \<and> r \<in> set (fallback_row c fname (row_data df i)))"
  by (auto simp: fallback_rows_concat split: if_splits)

lemma concat_map_if:
  "concat (map (\<lambda>i. if P i then [f i] else []) xs) = map f (filter P xs)"
  by (induction xs) simp_all

lemma mapped_row_id_gender:
  "map (\<lambda>r. (student_id r, gender_info r)) (mapped_row m c fname row) =
     (if c < length row \<and> valid_student_id (py_strip (row ! c))
      then [(py_strip (row ! c), mapped_value m Xingbie row)] else [])"
  by (simp add: mapped_row_def Let_def)

lemma mapped_value_unfold:
  "mapped_value m key row =
     (case m key of
        None \<Rightarrow> []
      | Some g \<Rightarrow>
          if g < length row then
            (if py_strip (row ! g) \<noteq> [] \<and> py_strip (row ! g) \<noteq> s_nan then py_strip (row ! g) else [])
          else [])"
  by (simp add: mapped_value_def Let_def split: option.splits)

text \<open>
  C9 (as the code has it).  On the mapped path the records are those of the rows of the window
  whose student number is valid, in row order, and the gender of each is the stripped text,
  whatever it is, of the cell of its own row in the mapped gender column, or empty when no
  gender column is mapped or the cell holds nothing.  On the fallback path the gender of a
  record is empty or one of the two values U+7537 and U+5973.
\<close>

theorem gender_of_extracted_records:
  assumes "header_locator df = (header_row_idx, col_mapping)"
  shows "case (header_row_idx, col_mapping Xuehao) of
     (Some h, Some c) \<Rightarrow>
        map (\<lambda>r. (student_id r, gender_info r)) (extract_students fname df []) =
        map (\<lambda>i. (py_strip (row_data df i ! c),
                    (case col_mapping Xingbie of
                       None \<Rightarrow> []
                     | Some g \<Rightarrow>
                         if g < length (row_data df i) then
                           (if py_strip (row_data df i ! g) \<noteq> [] \<and> py_strip (row_data df i ! g) \<noteq> s_nan
                            then py_strip (row_data df i ! g) else [])
                         else [])))
          (filter (\<lambda>i. c < length (row_data df i) \<and> valid_student_id (py_strip (row_data df i ! c)))
             [h + 1 ..< min (h + 31) (length df)])
   | _ \<Rightarrow> \<forall>r \<in> set (extract_students fname df []). gender_info r \<in> {[], s_nan_male, s_nv_female}"
proof (cases "header_row_idx \<noteq> None \<and> col_mapping Xuehao \<noteq> None")
  case True
  then obtain h c where hc: "header_row_idx = Some h" "col_mapping Xuehao = Some c" by auto
  have "extract_students fname df [] =
      concat (map (\<lambda>i. mapped_row col_mapping c fname (row_data df i))
        [h + 1 ..< min (h + 31) (length df)])"
    using assms hc by (simp add: extract_students_def mapped_rows_concat)
  then have "map (\<lambda>r. (student_id r, gender_info r)) (extract_students fname df []) =
      concat (map (\<lambda>i. if c < length (row_data df i) \<and> valid_student_id (py_strip (row_data df i ! c))
          then [(py_strip (row_data df i ! c), mapped_value col_mapping Xingbie (row_data df i))] else [])
        [h + 1 ..< min (h + 31) (length df)])"
    by (simp add: map_concat comp_def mapped_row_id_gender)
  also have "\<dots> = map (\<lambda>i. (py_strip (row_data df i ! c), mapped_value col_mapping Xingbie (row_data df i)))
      (filter (\<lambda>i. c < length (row_data df i) \<and> valid_student_id (py_strip (row_data df i ! c)))
         [h + 1 ..< min (h + 31) (length df)])"
    by (rule concat_map_if)
  finally show ?thesis
    unfolding hc mapped_value_unfold by simp
next
  case False
  have g: "gender_info r \<in> {[], s_nan_male, s_nv_female}"
    if r: "r \<in> set (extract_students fname df [])" for r
  proof (cases "find_id_column df [0 ..< min 20 (length df)]")
    case None
    with False assms r show ?thesis
      by (auto simp: extract_students_def split: option.splits)
  next
    case (Some a)
    obtain c hr where a: "a = (c, hr)" by (cases a)
    with False assms Some r have
      "r \<in> set (fallback_rows c fname df [hr + 1 ..< min (hr + 31) (length df)] [])"
      by (auto simp: extract_students_def split: option.splits)
    from fallback_rows_members [OF this] obtain i where
      "r \<in> set (fallback_row c fname (row_data df i))" by auto
    then show ?thesis by (rule fallback_row_gender)
  qed
  from False consider "header_row_idx = None" | "col_mapping Xuehao = None" by blast
  then show ?thesis
  proof cases
    case 1
    with g show ?thesis by simp
  next
    case 2
    with g show ?thesis by (cases header_row_idx) simp_all
  qed
qed

theorem gender_of_extracted_records_witness:
  "map (\<lambda>r. (student_id r, gender_info r)) (extract_students (asc ''CL1.xls'') sheet_two_students []) =
     [(asc ''20230001A'', asc ''F''), (asc ''20230002B'', asc ''M'')] \<and>
   fst (header_locator sheet_name_then_gender) = None \<and>
   map gender_info (extract_students (asc ''CL2.xls'') sheet_name_then_gender []) = [s_nan_male] \<and>
   list_all (\<lambda>r. gender_info r \<in> {[], s_nan_male, s_nv_female})
     (extract_students (asc ''CL2.xls'') sheet_name_then_gender [])"
proof -
  have e: "fst (header_locator sheet_two_students) = Some 0" by code_simp
  have c: "snd (header_locator sheet_two_students) Xuehao = Some 1" by code_simp
  have hl: "header_locator sheet_two_students = (Some 0, snd (header_locator sheet_two_students))"
    using e by (metis prod.collapse)
  have rhs: "map (\<lambda>i. (py_strip (row_data sheet_two_students i ! 1),
                    (case snd (header_locator sheet_two_students) Xingbie of
                       None \<Rightarrow> []
                     | Some g \<Rightarrow>
                         if g < length (row_data sheet_two_students i) then
                           (if py_strip (row_data sheet_two_students i ! g) \<noteq> [] \<and>
                               py_strip (row_data sheet_two_students i ! g) \<noteq> s_nan
                            then py_strip (row_data sheet_two_students i ! g) else [])
                         else [])))
          (filter (\<lambda>i. 1 < length (row_data sheet_two_students i) \<and>
                        valid_student_id (py_strip (row_data sheet_two_students i ! 1)))
             [0 + 1 ..< min (0 + 31) (length sheet_two_students)]) =
      [(asc ''20230001A'', asc ''F''), (asc ''20230002B'', asc ''M'')]"
    by code_simp
  from gender_of_extracted_records [OF hl, of "asc ''CL1.xls''"]
  have a: "map (\<lambda>r. (student_id r, gender_info r)) (extract_students (asc ''CL1.xls'') sheet_two_students []) =
     [(asc ''20230001A'', asc ''F''), (asc ''20230002B'', asc ''M'')]"
    unfolding c rhs [symmetric] by (simp only: prod.case option.case)
  have e2: "fst (header_locator sheet_name_then_gender) = None" by code_simp
  have hl2: "header_locator sheet_name_then_gender = (None, snd (header_locator sheet_name_then_gender))"
    using e2 by (metis prod.collapse)
  have g: "map gender_info (extract_students (asc ''CL2.xls'') sheet_name_then_gender []) = [s_nan_male]"
    by code_simp
  from gender_of_extracted_records [OF hl2, of "asc ''CL2.xls''"]
  have "\<forall>r \<in> set (extract_students (asc ''CL2.xls'') sheet_name_then_gender []).
      gender_info r \<in> {[], s_nan_male, s_nv_female}"
    by simp
  then have b: "list_all (\<lambda>r. gender_info r \<in> {[], s_nan_male, s_nv_female})
     (extract_students (asc ''CL2.xls'') sheet_name_then_gender [])"
    by (simp add: list_all_iff)
  show ?thesis using a e2 g b by blast
qed

text \<open>
  C9 as stated covers the mapped path too.  There the gender is whatever the cell holds: the
  scenario sheet gives the record the gender \<open>F\<close>.
\<close>

theorem gender_outside_two_values_counterexample:
  "fst (header_locator sheet_scenario) = Some 0 \<and>
   snd (header_locator sheet_scenario) Xuehao = Some 1 \<and>
   map gender_info (extract_students (asc ''CL1.xls'') sheet_scenario []) = [asc ''F''] \<and>
   asc ''F'' \<noteq> [] \<and> asc ''F'' \<noteq> s_nan_male \<and> asc ''F'' \<noteq> s_nv_female"
  by code_simp

section \<open>Roster Extractor, fallback path\<close>

text \<open>
  C5.  On the fallback path a cell that is neither identifier-like nor numeric is looked at
  as a name while no name has been found, and for nothing else: when it is too short or too
  long for a name, or holds an excluded keyword, the cell is dropped.  A gender cell to the
  left of the name is therefore lost, although it is the first cell that qualifies for the
  gender.
\<close>

theorem fallback_gender_before_name_lost:
  "fst (header_locator sheet_gender_then_name) = None \<and>
   find_id_column sheet_gender_then_name [0 ..< min 20 (length sheet_gender_then_name)] = Some (0, 0) \<and>
   row_data sheet_gender_then_name 1 = [asc ''2023A0001'', s_nan_male, asc ''Alice''] \<and>
   map student_id (extract_students (asc ''CL3.xls'') sheet_gender_then_name []) = [asc ''2023A0001''] \<and>
   map student_name (extract_students (asc ''CL3.xls'') sheet_gender_then_name []) = [asc ''Alice''] \<and>
   map gender_info (extract_students (asc ''CL3.xls'') sheet_gender_then_name []) = [[]] \<and>
   map gender_info (extract_students (asc ''CL2.xls'') sheet_name_then_gender []) = [s_nan_male]"
  by code_simp

section \<open>Score Collector\<close>

lemma label_index_None: "label_index l cols = None \<longleftrightarrow> l \<notin> set cols"
  by (induction cols) auto

lemma row_get_error: "row_get cols row l = Inl e \<longleftrightarrow> l \<notin> set cols \<and> e = KeyError"
  using label_index_None [of l cols] by (auto simp: row_get_def split: option.splits)

lemma row_get_cell: "row_get cols row l = Inr c \<Longrightarrow> cell_at cols row l = c"
  by (simp add: cell_at_def)

lemma row_get_present: "l \<in> set cols \<Longrightarrow> row_get cols row l = Inr (cell_at cols row l)"
  by (cases "row_get cols row l") (auto simp: row_get_error cell_at_def)

lemma table_entries_Nil [simp]: "table_entries cols sc [] = []"
  by (simp add: table_entries_def)

lemma table_entries_absent:
  "s_xuehao \<notin> set cols \<or> sc \<notin> set cols \<Longrightarrow> table_entries cols sc rows = []"
  by (auto simp: table_entries_def)

lemma table_entries_Cons:
  "s_xuehao \<in> set cols \<Longrightarrow> sc \<in> set cols \<Longrightarrow>
   table_entries cols sc (row # rows) =
     (if cell_at cols row s_xuehao \<noteq> NaN \<and> cell_at cols row sc \<noteq> NaN
      then [(py_strip (py_str (cell_at cols row s_xuehao)), cell_at cols row sc)] else [])
     @ table_entries cols sc rows"
  by (simp add: table_entries_def)

text \<open>The loop over the rows stores the entries of the table, and a loop that raises stores none.\<close>

lemma keyed_rows_entries:
  "fst (keyed_rows cols sc key rows scores) =
     fold (\<lambda>(sid, v). put_score sid key v) (table_entries cols sc rows) scores"
proof (cases "s_xuehao \<in> set cols")
  case False
  then have "fst (keyed_rows cols sc key rows scores) = scores"
    by (cases rows) (auto simp: row_get_def label_index_None [THEN iffD2])
  with False show ?thesis by (simp add: table_entries_absent)
next
  case id: True
  show ?thesis
  proof (cases "sc \<in> set cols")
    case False
    have "fst (keyed_rows cols sc key rows scores) = scores"
    proof (induction rows)
      case Nil
      show ?case by simp
    next
      case (Cons row rows)
      from False have "row_get cols row sc = Inl KeyError"
        by (simp add: row_get_error)
      with Cons id show ?case
        by (simp add: row_get_present)
    qed
    with False show ?thesis by (simp add: table_entries_absent)
  next
    case True
    show ?thesis
    proof (induction rows arbitrary: scores)
      case Nil
      show ?case by simp
    next
      case (Cons row rows)
      show ?case
        using id True Cons.IH
        by (simp add: row_get_present table_entries_Cons)
    qed
  qed
qed


lemma tl_rows_entries:
  "fst (tl_rows cols rows ts) =
     fold (\<lambda>(sid, v). AList.update sid v) (table_entries cols s_taolun rows) ts"
proof (cases "s_xuehao \<in> set cols")
  case False
  then have "fst (tl_rows cols rows ts) = ts"
    by (cases rows) (auto simp: row_get_def label_index_None [THEN iffD2])
  with False show ?thesis by (simp add: table_entries_absent)
next
  case id: True
  show ?thesis
  proof (cases "s_taolun \<in> set cols")
    case False
    have "fst (tl_rows cols rows ts) = ts"
    proof (induction rows)
      case Nil
      show ?case by simp
    next
      case (Cons row rows)
      from False have "row_get cols row s_taolun = Inl KeyError"
        by (simp add: row_get_error)
      with Cons id show ?case
        by (simp add: row_get_present)
    qed
    with False show ?thesis by (simp add: table_entries_absent)
  next
    case True
    show ?thesis
    proof (induction rows arbitrary: ts)
      case Nil
      show ?case by simp
    next
      case (Cons row rows)
      show ?case
        using id True Cons.IH
        by (simp add: row_get_present table_entries_Cons)
    qed
  qed
qed


lemma score_keyword_not_empty: "py_in s_defen col \<Longrightarrow> col \<noteq> []"
  by (auto simp: s_defen_def)

lemma find_score_col_Some: "find_score_col cols = Some col \<Longrightarrow> col \<noteq> []"
  by (induction cols) (auto simp: score_keyword_not_empty split: if_splits)

lemma keyed_body_entries:
  "fst (keyed_body f scores) =
     fold (\<lambda>(sid, v). put_score sid (category_key f) v) (keyed_file_entries f) scores"
  by (auto simp: keyed_body_def keyed_file_entries_def keyed_rows_entries find_score_col_Some
      split: sum.splits option.splits)


lemma tl_body_entries:
  "fst (tl_body f ts) = fold (\<lambda>(sid, v). AList.update sid v) (tl_file_entries f) ts"
  by (auto simp: tl_body_def tl_file_entries_def tl_rows_entries table_entries_absent
      split: sum.splits)


lemma find_score_col_leftmost:
  assumes "j < length cols" and "py_in s_defen (cols ! j)"
    and "\<forall>k < j. \<not> py_in s_defen (cols ! k)"
  shows "find_score_col cols = Some (cols ! j)"
  using assms
proof (induction cols arbitrary: j)
  case Nil
  then show ?case by simp
next
  case (Cons c cols)
  show ?case
  proof (cases j)
    case 0
    with Cons.prems show ?thesis by simp
  next
    case (Suc j')
    with Cons.prems have "\<not> py_in s_defen c" by auto
    moreover have "find_score_col cols = Some (cols ! j')"
      using Cons.prems Suc by (intro Cons.IH) auto
    ultimately show ?thesis using Suc by simp
  qed
qed

text \<open>
  C10.  When several column labels of a score file hold the score keyword, the loop over the
  rows runs with the leftmost of them for every row: the entries stored are the ones that
  column gives, whatever the other columns hold.
\<close>

theorem leftmost_score_column_is_used:
  assumes "try_engines (read_table f) (engines_for (fpath f)) = Inr df"
    and "j < length (df_columns df)"
    and "py_in s_defen (df_columns df ! j)"
    and "\<forall>k < j. \<not> py_in s_defen (df_columns df ! k)"
  shows "find_score_col (df_columns df) = Some (df_columns df ! j) \<and>
    keyed_body f scores =
      keyed_rows (df_columns df) (df_columns df ! j) (category_key f) (df_rows df) scores \<and>
    fst (keyed_body f scores) =
      fold (\<lambda>(sid, v). put_score sid (category_key f) v)
        (table_entries (df_columns df) (df_columns df ! j) (df_rows df)) scores"
proof -
  have c: "find_score_col (df_columns df) = Some (df_columns df ! j)"
    using assms(2-4) by (rule find_score_col_leftmost)
  moreover from c have "df_columns df ! j \<noteq> []" by (rule find_score_col_Some)
  ultimately have b: "keyed_body f scores =
      keyed_rows (df_columns df) (df_columns df ! j) (category_key f) (df_rows df) scores"
    using assms(1) by (simp add: keyed_body_def)
  show ?thesis
    using c b by (simp add: keyed_rows_entries)
qed

theorem leftmost_score_column_witness:
  "find_score_col (df_columns table_two_score_columns) = Some (asc ''SA1'' @ s_defen) \<and>
   py_in s_defen (df_columns table_two_score_columns ! 2) \<and>
   table_entries (df_columns table_two_score_columns) (asc ''SA1'' @ s_defen)
     (df_rows table_two_score_columns) = [(asc ''20230001A'', Num 85)] \<and>
   fst (keyed_body file_sa1 []) = [(asc ''20230001A'', [(asc ''SA1'', Num 85)])]"
proof -
  have r: "try_engines (read_table file_sa1) (engines_for (fpath file_sa1)) = Inr table_two_score_columns"
    by (simp add: file_sa1_def engines_for_def)
  have j: "1 < length (df_columns table_two_score_columns)"
    by (simp add: table_two_score_columns_def)
  have c: "df_columns table_two_score_columns ! 1 = asc ''SA1'' @ s_defen"
    by (simp add: table_two_score_columns_def)
  have m: "py_in s_defen (df_columns table_two_score_columns ! 1)" by code_simp
  have l: "\<forall>k < 1. \<not> py_in s_defen (df_columns table_two_score_columns ! k)"
  proof -
    have "\<not> py_in s_defen (df_columns table_two_score_columns ! 0)" by code_simp
    then show ?thesis by simp
  qed
  have m2: "py_in s_defen (df_columns table_two_score_columns ! 2)" by code_simp
  have k: "category_key file_sa1 = asc ''SA1''" by code_simp
  have e: "table_entries (df_columns table_two_score_columns) (asc ''SA1'' @ s_defen)
     (df_rows table_two_score_columns) = [(asc ''20230001A'', Num 85)]" by code_simp
  from leftmost_score_column_is_used [OF r j m l, of "[]"]
  have "find_score_col (df_columns table_two_score_columns) = Some (asc ''SA1'' @ s_defen)"
    and "fst (keyed_body file_sa1 []) =
      fold (\<lambda>(sid, v). put_score sid (asc ''SA1'') v)
        (table_entries (df_columns table_two_score_columns) (asc ''SA1'' @ s_defen)
           (df_rows table_two_score_columns)) []"
    unfolding c k by blast+
  then show ?thesis
    using m2 e by (simp add: put_score_def)
qed

section \<open>Table Merger\<close>

lemma nth_after: "length xs = n \<Longrightarrow> (xs @ ys) ! (n + j) = ys ! j"
  by (simp add: nth_append)

lemma summary_data_length:
  "length (summary_data cl sa_keys la_keys sa la ts) = length cl"
  by (simp add: summary_data_def del: upt_Suc)

lemma summary_data_nth:
  assumes "i < length cl"
  shows "summary_data cl sa_keys la_keys sa la ts ! i =
     summary_row sa_keys la_keys sa la ts (Suc i) (cl ! i)"
proof -
  have "[1 ..< Suc (length cl)] ! i = Suc i"
    using assms by (simp del: upt_Suc)
  then have "zip [1 ..< Suc (length cl)] cl ! i = (Suc i, cl ! i)"
    using assms by (simp del: upt_Suc)
  moreover have "i < length (zip [1 ..< Suc (length cl)] cl)"
    using assms by (simp del: upt_Suc)
  ultimately show ?thesis
    unfolding summary_data_def by (simp del: upt_Suc)
qed

lemma keyed_cell_entry:
  "keyed_cell scores sid key =
     (case score_entry scores sid key of None \<Rightarrow> Num 0 | Some score \<Rightarrow> score)"
  by (simp add: keyed_cell_def score_entry_def split: option.splits)

lemma summary_row_shape:
  "\<exists>fx. length fx = 7 \<and> fx ! 0 = Num (int i) \<and> fx ! 2 = Str (student_id s) \<and>
     summary_row sa_keys la_keys sa la ts i s =
       fx @ map (keyed_cell sa (student_id s)) sa_keys
          @ map (keyed_cell la (student_id s)) la_keys
          @ [case map_of ts (student_id s) of None \<Rightarrow> Num 0 | Some score \<Rightarrow> score]"
  by (rule exI [of _ "[Num (int i), Str (original_seq s), Str (student_id s), Str (student_name s),
      Str (class_info s), Str (gender_info s), Str (source_file s)]"]) (simp add: summary_row_def)

lemma summary_row_cells:
  "length (summary_row sa_keys la_keys sa la ts i s) = 7 + length sa_keys + length la_keys + 1"
  "summary_row sa_keys la_keys sa la ts i s ! 0 = Num (int i)"
  "summary_row sa_keys la_keys sa la ts i s ! 2 = Str (student_id s)"
  "j < length sa_keys \<Longrightarrow>
     summary_row sa_keys la_keys sa la ts i s ! (7 + j) = keyed_cell sa (student_id s) (sa_keys ! j)"
  "j < length la_keys \<Longrightarrow>
     summary_row sa_keys la_keys sa la ts i s ! (7 + length sa_keys + j) =
       keyed_cell la (student_id s) (la_keys ! j)"
  "summary_row sa_keys la_keys sa la ts i s ! (7 + length sa_keys + length la_keys) =
     (case map_of ts (student_id s) of None \<Rightarrow> Num 0 | Some score \<Rightarrow> score)"
proof -
  from summary_row_shape [of i s sa_keys la_keys sa la ts] obtain fx where
    l: "length fx = 7" and f0: "fx ! 0 = Num (int i)" and f2: "fx ! 2 = Str (student_id s)"
    and r: "summary_row sa_keys la_keys sa la ts i s =
       fx @ map (keyed_cell sa (student_id s)) sa_keys
          @ map (keyed_cell la (student_id s)) la_keys
          @ [case map_of ts (student_id s) of None \<Rightarrow> Num 0 | Some score \<Rightarrow> score]"
    by blast
  show "length (summary_row sa_keys la_keys sa la ts i s) = 7 + length sa_keys + length la_keys + 1"
    by (simp add: r l)
  show "summary_row sa_keys la_keys sa la ts i s ! 0 = Num (int i)"
    using l f0 by (simp add: r nth_append)
  show "summary_row sa_keys la_keys sa la ts i s ! 2 = Str (student_id s)"
    using l f2 by (simp add: r nth_append)
  show "summary_row sa_keys la_keys sa la ts i s ! (7 + j) = keyed_cell sa (student_id s) (sa_keys ! j)"
    if "j < length sa_keys"
    unfolding r nth_after [OF l] using that by (simp add: nth_append)
  show "summary_row sa_keys la_keys sa la ts i s ! (7 + length sa_keys + j) =
       keyed_cell la (student_id s) (la_keys ! j)" if "j < length la_keys"
    unfolding r add.assoc nth_after [OF l] using that by (simp add: nth_append)
  show "summary_row sa_keys la_keys sa la ts i s ! (7 + length sa_keys + length la_keys) =
     (case map_of ts (student_id s) of None \<Rightarrow> Num 0 | Some score \<Rightarrow> score)"
    unfolding r add.assoc nth_after [OF l] by (simp add: nth_append)
qed

lemma summary_row_depends_on_own_id:
  assumes "map_of sa' (student_id s) = map_of sa (student_id s)"
    and "map_of la' (student_id s) = map_of la (student_id s)"
    and "map_of ts' (student_id s) = map_of ts (student_id s)"
  shows "summary_row sa_keys la_keys sa' la' ts' i s = summary_row sa_keys la_keys sa la ts i s"
  using assms by (simp add: summary_row_def keyed_cell_def)

text \<open>
  C2 (as the code has it).  The merged table has one row for every roster record, in roster
  order and with that record's student number.  Under every category column the cell is the
  score stored for that student number in that category, and zero when there is none; the
  discussion cell likewise.  A score stored for a student number that is on no roster gives
  no row and its value stands in no cell, but its category key is a column all the same:
  the rows are the same for any scores that agree on the student numbers of the roster and
  have the same category keys.
\<close>

theorem merge_is_left_join_on_roster:
  "length (df_rows (merge_tables cl sa la ts)) = length cl \<and>
   (\<forall>i < length cl.
      length (df_rows (merge_tables cl sa la ts) ! i) = length (df_columns (merge_tables cl sa la ts)) \<and>
      df_rows (merge_tables cl sa la ts) ! i ! 0 = Num (int (i + 1)) \<and>
      df_rows (merge_tables cl sa la ts) ! i ! 2 = Str (student_id (cl ! i)) \<and>
      (\<forall>j < length (category_keys sa).
         df_columns (merge_tables cl sa la ts) ! (7 + j) = category_keys sa ! j \<and>
         df_rows (merge_tables cl sa la ts) ! i ! (7 + j) =
           (case score_entry sa (student_id (cl ! i)) (category_keys sa ! j) of
              None \<Rightarrow> Num 0 | Some score \<Rightarrow> score)) \<and>
      (\<forall>j < length (category_keys la).
         df_columns (merge_tables cl sa la ts) ! (7 + length (category_keys sa) + j) =
           category_keys la ! j \<and>
         df_rows (merge_tables cl sa la ts) ! i ! (7 + length (category_keys sa) + j) =
           (case score_entry la (student_id (cl ! i)) (category_keys la ! j) of
              None \<Rightarrow> Num 0 | Some score \<Rightarrow> score)) \<and>
      df_rows (merge_tables cl sa la ts) ! i
          ! (7 + length (category_keys sa) + length (category_keys la)) =
        (case map_of ts (student_id (cl ! i)) of None \<Rightarrow> Num 0 | Some score \<Rightarrow> score)) \<and>
   (\<forall>sa' la' ts'.
      category_keys sa' = category_keys sa \<and> category_keys la' = category_keys la \<and>
      (\<forall>s \<in> set cl. map_of sa' (student_id s) = map_of sa (student_id s) \<and>
                    map_of la' (student_id s) = map_of la (student_id s) \<and>
                    map_of ts' (student_id s) = map_of ts (student_id s))
      \<longrightarrow> merge_tables cl sa' la' ts' = merge_tables cl sa la ts)"
proof (intro conjI allI impI)
  show "length (df_rows (merge_tables cl sa la ts)) = length cl"
    by (simp add: merge_tables_def Let_def summary_data_length)
next
  fix i assume i: "i < length cl"
  have row: "df_rows (merge_tables cl sa la ts) ! i =
      summary_row (category_keys sa) (category_keys la) sa la ts (Suc i) (cl ! i)"
    using i by (simp add: merge_tables_def Let_def summary_data_nth)
  have cols: "df_columns (merge_tables cl sa la ts) =
      fixed_columns @ category_keys sa @ category_keys la @ [tl_column]"
    by (simp add: merge_tables_def Let_def)
  have fl: "length fixed_columns = 7" by (simp add: fixed_columns_def)
  show "length (df_rows (merge_tables cl sa la ts) ! i) = length (df_columns (merge_tables cl sa la ts))"
    by (simp add: row cols fl summary_row_cells(1))
  show "df_rows (merge_tables cl sa la ts) ! i ! 0 = Num (int (i + 1))"
    by (simp add: row summary_row_cells(2))
  show "df_rows (merge_tables cl sa la ts) ! i ! 2 = Str (student_id (cl ! i))"
    by (simp add: row summary_row_cells(3))
  show "df_rows (merge_tables cl sa la ts) ! i
          ! (7 + length (category_keys sa) + length (category_keys la)) =
        (case map_of ts (student_id (cl ! i)) of None \<Rightarrow> Num 0 | Some score \<Rightarrow> score)"
    by (simp only: row summary_row_cells(6))
  {
    fix j assume j: "j < length (category_keys sa)"
    show "df_columns (merge_tables cl sa la ts) ! (7 + j) = category_keys sa ! j"
      unfolding cols nth_after [OF fl] using j by (simp add: nth_append)
    show "df_rows (merge_tables cl sa la ts) ! i ! (7 + j) =
           (case score_entry sa (student_id (cl ! i)) (category_keys sa ! j) of
              None \<Rightarrow> Num 0 | Some score \<Rightarrow> score)"
      using j by (simp only: row summary_row_cells(4) keyed_cell_entry)
  }
  {
    fix j assume j: "j < length (category_keys la)"
    show "df_columns (merge_tables cl sa la ts) ! (7 + length (category_keys sa) + j) =
           category_keys la ! j"
      unfolding cols add.assoc nth_after [OF fl] using j by (simp add: nth_append)
    show "df_rows (merge_tables cl sa la ts) ! i ! (7 + length (category_keys sa) + j) =
           (case score_entry la (student_id (cl ! i)) (category_keys la ! j) of
              None \<Rightarrow> Num 0 | Some score \<Rightarrow> score)"
      using j by (simp only: row summary_row_cells(5) keyed_cell_entry)
  }
next
  fix sa' la' ts'
  assume a: "category_keys sa' = category_keys sa \<and> category_keys la' = category_keys la \<and>
      (\<forall>s \<in> set cl. map_of sa' (student_id s) = map_of sa (student_id s) \<and>
                    map_of la' (student_id s) = map_of la (student_id s) \<and>
                    map_of ts' (student_id s) = map_of ts (student_id s))"
  have "summary_data cl (category_keys sa) (category_keys la) sa' la' ts' =
      summary_data cl (category_keys sa) (category_keys la) sa la ts"
    unfolding summary_data_def
  proof (rule map_cong [OF refl])
    fix p assume "p \<in> set (zip [1 ..< Suc (length cl)] cl)"
    then have "snd p \<in> set cl" by (metis in_set_zipE prod.collapse)
    with a have "summary_row (category_keys sa) (category_keys la) sa' la' ts' (fst p) (snd p) =
        summary_row (category_keys sa) (category_keys la) sa la ts (fst p) (snd p)"
      by (intro summary_row_depends_on_own_id) blast+
    then show "(case p of (i, s) \<Rightarrow> summary_row (category_keys sa) (category_keys la) sa' la' ts' i s) =
        (case p of (i, s) \<Rightarrow> summary_row (category_keys sa) (category_keys la) sa la ts i s)"
      by (simp add: case_prod_beta)
  qed
  with a show "merge_tables cl sa' la' ts' = merge_tables cl sa la ts"
    by (simp add: merge_tables_def Let_def)
qed

theorem merge_is_left_join_witness:
  "category_keys sa_example = [asc ''SA1'', asc ''SA2''] \<and>
   length (df_rows (merge_tables roster_two sa_example [] [])) = 2 \<and>
   df_rows (merge_tables roster_two sa_example [] []) ! 0 ! 7 = Num 85 \<and>
   df_rows (merge_tables roster_two sa_example [] []) ! 0 ! 8 = Num 0 \<and>
   df_rows (merge_tables roster_two sa_example [] []) ! 1 ! 7 = Num 0 \<and>
   df_rows (merge_tables roster_two sa_example [] []) ! 1 ! 2 = Str (asc ''20230002B'')"
proof -
  have k: "category_keys sa_example = [asc ''SA1'', asc ''SA2'']" by code_simp
  have n: "length roster_two = 2" by (simp add: roster_two_def)
  have ids: "student_id (roster_two ! 0) = asc ''20230001A''"
    "student_id (roster_two ! 1) = asc ''20230002B''"
    by (simp_all add: roster_two_def)
  have e: "score_entry sa_example (asc ''20230001A'') (asc ''SA1'') = Some (Num 85)"
    "score_entry sa_example (asc ''20230001A'') (asc ''SA2'') = None"
    "score_entry sa_example (asc ''20230002B'') (asc ''SA1'') = None"
    by code_simp+
  note t = merge_is_left_join_on_roster [of roster_two sa_example "[]" "[]"]
  from t have len: "length (df_rows (merge_tables roster_two sa_example [] [])) = 2"
    unfolding n by blast
  from t have ident: "\<And>i. i < 2 \<Longrightarrow>
      df_rows (merge_tables roster_two sa_example [] []) ! i ! 2 = Str (student_id (roster_two ! i))"
    unfolding n by blast
  from t have cells: "\<And>i j. i < 2 \<Longrightarrow> j < 2 \<Longrightarrow>
      df_rows (merge_tables roster_two sa_example [] []) ! i ! (7 + j) =
        (case score_entry sa_example (student_id (roster_two ! i)) ([asc ''SA1'', asc ''SA2''] ! j) of
           None \<Rightarrow> Num 0 | Some score \<Rightarrow> score)"
    unfolding n k by simp
  have r00: "df_rows (merge_tables roster_two sa_example [] []) ! 0 ! 7 = Num 85"
    using cells [of 0 0] unfolding ids by (simp add: e)
  have r01: "df_rows (merge_tables roster_two sa_example [] []) ! 0 ! 8 = Num 0"
    using cells [of 0 1] unfolding ids by (simp add: e)
  have r10: "df_rows (merge_tables roster_two sa_example [] []) ! 1 ! 7 = Num 0"
    using cells [of 1 0] unfolding ids by (simp add: e)
  have r12: "df_rows (merge_tables roster_two sa_example [] []) ! 1 ! 2 = Str (asc ''20230002B'')"
    using ident [of 1] unfolding ids by simp
  show ?thesis
    using k len r00 r01 r10 r12 by simp
qed

text \<open>
  C2 as stated has no row reflect a score of a student number that is on no roster.  An entry
  of such a student under a category key no roster student has adds a column, and with it a
  zero cell to every row.
\<close>

theorem merge_non_roster_entry_counterexample:
  "list_all (\<lambda>s. map_of sa_example (student_id s) = map_of sa_roster_only (student_id s))
     roster_two \<and>
   map fst sa_example = [asc ''20230001A'', asc ''20239999Z''] \<and>
   list_all (\<lambda>s. student_id s \<noteq> asc ''20239999Z'') roster_two \<and>
   map (drop 7) (df_rows (merge_tables roster_two sa_roster_only [] [])) =
     [[Num 85, Num 0], [Num 0, Num 0]] \<and>
   map (drop 7) (df_rows (merge_tables roster_two sa_example [] [])) =
     [[Num 85, Num 0, Num 0], [Num 0, Num 0, Num 0]] \<and>
   df_rows (merge_tables roster_two sa_example [] []) \<noteq>
     df_rows (merge_tables roster_two sa_roster_only [] [])"
  by code_simp

section \<open>Failures of single files\<close>








section \<open>Export\<close>

text \<open>
  C8 (as the code has it).  A run writes the merged frame, its header and one row for every
  roster record, once and under the fixed name when the roster has a record; when the roster
  is empty it writes nothing.
\<close>

theorem export_once_unless_roster_empty:
  "main all_files =
     (if fst (collect_cl all_files) = [] then []
      else [(output_filename_default, create_grade_summary all_files)]) \<and>
   length (df_rows (create_grade_summary all_files)) = length (fst (collect_cl all_files))"
proof -
  have l: "length (df_rows (create_grade_summary all_files)) = length (fst (collect_cl all_files))"
    by (simp add: create_grade_summary_def merge_tables_def Let_def summary_data_length)
  then show ?thesis
    by (simp add: main_def export_summary_with_stats_def)
qed

theorem export_once_witness:
  "length (fst (collect_cl [file_cl1])) = 1 \<and>
   main [file_cl1] = [(output_filename_default, create_grade_summary [file_cl1])] \<and>
   length (df_rows (create_grade_summary [file_cl1])) = 1"
proof -
  have n: "length (fst (collect_cl [file_cl1])) = 1" by code_simp
  then have "fst (collect_cl [file_cl1]) \<noteq> []" by auto
  with export_once_unless_roster_empty [of "[file_cl1]"] n show ?thesis by simp
qed

text \<open>
  C8 as stated has the file written also for an empty roster.  A directory with a score file
  and no roster file gives an empty roster, and nothing is written.
\<close>

theorem export_empty_roster_counterexample:
  "length (fst (collect_cl [file_sa1])) = 0 \<and> length (main [file_sa1]) = 0"
  by code_simp

section \<open>Overwriting of scores\<close>

lemma score_entry_put:
  "score_entry (put_score sid key v scores) sid' key' =
     (if sid' = sid \<and> key' = key then Some v else score_entry scores sid' key')"
  by (auto simp: put_score_def score_entry_def update_conv' split: option.splits)

lemma score_entry_file:
  "score_entry (fold (\<lambda>(sid, v). put_score sid k v) es scores) sid' k' =
     (if k' = k then
        (case map_of (rev es) sid' of Some v \<Rightarrow> Some v | None \<Rightarrow> score_entry scores sid' k')
      else score_entry scores sid' k')"
proof (induction es arbitrary: scores)
  case Nil
  show ?case by simp
next
  case (Cons a es)
  obtain sid v where a: "a = (sid, v)" by (cases a)
  show ?case
    by (simp add: a Cons.IH score_entry_put map_add_def split: option.splits)
qed

lemma direct_fold_lookup:
  "map_of (fold (\<lambda>(sid, v). AList.update sid v) es ts) sid' =
     (case map_of (rev es) sid' of Some v \<Rightarrow> Some v | None \<Rightarrow> map_of ts sid')"
proof (induction es arbitrary: ts)
  case Nil
  show ?case by simp
next
  case (Cons a es)
  obtain sid v where a: "a = (sid, v)" by (cases a)
  show ?case
    by (simp add: a Cons.IH update_conv' map_add_def split: option.splits)
qed

lemma for_each_file_fst:
  "fst (for_each_file body fs (acc, log)) = fold (\<lambda>f acc. fst (body f acc)) fs acc"
proof (induction fs arbitrary: acc log)
  case Nil
  show ?case by simp
next
  case (Cons f fs)
  obtain acc' r where b: "body f acc = (acc', r)" by (cases "body f acc")
  show ?case
    by (cases r) (simp_all add: b Cons.IH)
qed

lemma tl_loop_lookup:
  "map_of (fst (for_each_file tl_body fs (ts, log))) sid =
     (case map_of (rev (concat (map tl_file_entries fs))) sid of
        Some v \<Rightarrow> Some v | None \<Rightarrow> map_of ts sid)"
proof (induction fs arbitrary: ts log)
  case Nil
  show ?case by simp
next
  case (Cons f fs)
  have "fst (for_each_file tl_body (f # fs) (ts, log)) =
      fst (for_each_file tl_body fs (fst (tl_body f ts), log))"
    unfolding for_each_file_fst by simp
  then show ?case
    by (simp add: Cons.IH tl_body_entries direct_fold_lookup map_add_def split: option.splits)
qed

lemma keyed_loop_other_key:
  "k \<notin> category_key ` set fs \<Longrightarrow>
   score_entry (fst (for_each_file keyed_body fs (scores, log))) sid k = score_entry scores sid k"
proof (induction fs arbitrary: scores log)
  case Nil
  show ?case by simp
next
  case (Cons f fs)
  have "fst (for_each_file keyed_body (f # fs) (scores, log)) =
      fst (for_each_file keyed_body fs (fst (keyed_body f scores), log))"
    unfolding for_each_file_fst by simp
  with Cons show ?case
    by (simp add: keyed_body_entries score_entry_file)
qed

lemma keyed_loop_own_key:
  assumes "distinct (map category_key fs)" and "f \<in> set fs"
  shows "score_entry (fst (for_each_file keyed_body fs (scores, log))) sid (category_key f) =
     (case map_of (rev (keyed_file_entries f)) sid of
        Some v \<Rightarrow> Some v | None \<Rightarrow> score_entry scores sid (category_key f))"
  using assms
proof (induction fs arbitrary: scores log)
  case Nil
  then show ?case by simp
next
  case (Cons g fs)
  have step: "fst (for_each_file keyed_body (g # fs) (scores, log)) =
      fst (for_each_file keyed_body fs (fst (keyed_body g scores), log))"
    unfolding for_each_file_fst by simp
  show ?case
  proof (cases "f = g")
    case True
    with Cons.prems have "category_key f \<notin> category_key ` set fs" by auto
    then show ?thesis
      unfolding step using True
      by (auto simp: keyed_loop_other_key keyed_body_entries score_entry_file split: option.splits)
  next
    case False
    with Cons.prems have f: "f \<in> set fs" and d: "distinct (map category_key fs)"
      and n: "category_key g \<notin> category_key ` set fs" by auto
    from f n have k: "category_key f \<noteq> category_key g" by (metis imageI)
    have "score_entry (fst (keyed_body g scores)) sid (category_key f) =
        score_entry scores sid (category_key f)"
      using k by (simp add: keyed_body_entries score_entry_file)
    then show ?thesis
      unfolding step Cons.IH [OF d f] by (simp split: option.splits)
  qed
qed

text \<open>
  The discussion scores are kept by student number alone: after the loop over the discussion
  files, the score of a student is the one of the last entry for that student number in the
  entries of all files taken in file order, so a later file overwrites an earlier one.  In a
  category keyed by file, when the category keys of the files differ from one another, the
  score held for a student under the key of a file is the last entry that file itself has
  for the student: no other file overwrites it.
\<close>

theorem direct_scores_last_write_keyed_scores_per_key:
  "map_of (fst (for_each_file tl_body tfs ([], []))) sid =
     map_of (rev (concat (map tl_file_entries tfs))) sid \<and>
   (distinct (map category_key fs) \<and> f \<in> set fs \<longrightarrow>
      score_entry (fst (for_each_file keyed_body fs ([], []))) sid (category_key f) =
        map_of (rev (keyed_file_entries f)) sid)"
proof (intro conjI impI)
  show "map_of (fst (for_each_file tl_body tfs ([], []))) sid =
     map_of (rev (concat (map tl_file_entries tfs))) sid"
    by (simp add: tl_loop_lookup split: option.splits)
next
  assume a: "distinct (map category_key fs) \<and> f \<in> set fs"
  have "score_entry [] sid (category_key f) = None" by (simp add: score_entry_def)
  with a show "score_entry (fst (for_each_file keyed_body fs ([], []))) sid (category_key f) =
        map_of (rev (keyed_file_entries f)) sid"
    by (simp add: keyed_loop_own_key split: option.splits)
qed

theorem direct_scores_last_write_witness:
  "concat (map tl_file_entries [file_tl1, file_tl2]) =
     [(asc ''20230001A'', Num 3), (asc ''20230002B'', Num 4), (asc ''20230001A'', Num 5)] \<and>
   map_of (fst (collect_tl [file_tl1, file_tl2])) (asc ''20230001A'') = Some (Num 5) \<and>
   distinct (map category_key [file_sa1_first, file_sa2]) \<and>
   score_entry (fst (collect_sa [file_sa1_first, file_sa2])) (asc ''20230001A'') (asc ''SA1'') =
     Some (Num 1)"
proof -
  have "py_in (asc ''TL'') (fpath file_tl1)" "py_in (asc ''TL'') (fpath file_tl2)"
    "py_in (asc ''SA'') (fpath file_sa1_first) \<and> py_endswith (fpath file_sa1_first) (asc ''.xls'')"
    "py_in (asc ''SA'') (fpath file_sa2) \<and> py_endswith (fpath file_sa2) (asc ''.xls'')"
    by code_simp+
  then have fs: "tl_files [file_tl1, file_tl2] = [file_tl1, file_tl2]"
    "sa_files [file_sa1_first, file_sa2] = [file_sa1_first, file_sa2]"
    unfolding tl_files_def sa_files_def by simp_all
  have es: "concat (map tl_file_entries [file_tl1, file_tl2]) =
     [(asc ''20230001A'', Num 3), (asc ''20230002B'', Num 4), (asc ''20230001A'', Num 5)]"
    by code_simp
  have d: "distinct (map category_key [file_sa1_first, file_sa2])" by code_simp
  have k: "category_key file_sa1_first = asc ''SA1''" by code_simp
  have e: "keyed_file_entries file_sa1_first = [(asc ''20230001A'', Num 1)]" by code_simp
  note t = direct_scores_last_write_keyed_scores_per_key
    [of "[file_tl1, file_tl2]" "asc ''20230001A''" "[file_sa1_first, file_sa2]" file_sa1_first]
  from t have "map_of (fst (collect_tl [file_tl1, file_tl2])) (asc ''20230001A'') =
      map_of (rev (concat (map tl_file_entries [file_tl1, file_tl2]))) (asc ''20230001A'')"
    unfolding collect_tl_def fs by blast
  then have a: "map_of (fst (collect_tl [file_tl1, file_tl2])) (asc ''20230001A'') = Some (Num 5)"
    unfolding es by (simp add: asc_def)
  from t d have "score_entry (fst (collect_sa [file_sa1_first, file_sa2])) (asc ''20230001A'')
      (category_key file_sa1_first) = map_of (rev (keyed_file_entries file_sa1_first)) (asc ''20230001A'')"
    unfolding collect_sa_def fs by simp
  then have b: "score_entry (fst (collect_sa [file_sa1_first, file_sa2])) (asc ''20230001A'') (asc ''SA1'') =
     Some (Num 1)"
    unfolding k e by simp
  show ?thesis using es a d b by simp
qed

text \<open>
  C6.  A category keyed by file is to keep the scores of every file under the file's own key.
  The key is made by taking every \<open>.xls\<close> out of the file name, not the extension alone:
  \<open>SA1.xls\<close> and \<open>SA1.xls.xls\<close> are two files of one directory with the one key \<open>SA1\<close>, and
  the score of the second replaces the score of the first.
\<close>

theorem keyed_scores_of_two_files_under_one_key:
  "map fpath (sa_files [file_sa1_first, file_sa1_second]) = [asc ''SA1.xls'', asc ''SA1.xls.xls''] \<and>
   category_key file_sa1_first = asc ''SA1'' \<and>
   category_key file_sa1_second = asc ''SA1'' \<and>
   keyed_file_entries file_sa1_first = [(asc ''20230001A'', Num 1)] \<and>
   fst (collect_sa [file_sa1_first, file_sa1_second]) = [(asc ''20230001A'', [(asc ''SA1'', Num 2)])]"
  by code_simp

section \<open>Output columns\<close>

lemma put_score_distinct:
  "distinct (map fst scores) \<Longrightarrow> distinct (map fst (put_score sid k v scores))"
  by (simp add: put_score_def distinct_update split: option.splits)

lemma fold_put_score_distinct:
  "distinct (map fst scores) \<Longrightarrow>
   distinct (map fst (fold (\<lambda>(sid, v). put_score sid k v) es scores))"
  by (induction es arbitrary: scores) (auto simp: put_score_distinct)

lemma keyed_loop_distinct:
  "distinct (map fst scores) \<Longrightarrow>
   distinct (map fst (fst (for_each_file keyed_body fs (scores, log))))"
proof (induction fs arbitrary: scores log)
  case Nil
  then show ?case by simp
next
  case (Cons f fs)
  have "fst (for_each_file keyed_body (f # fs) (scores, log)) =
      fst (for_each_file keyed_body fs (fst (keyed_body f scores), log))"
    unfolding for_each_file_fst by simp
  with Cons show ?case
    by (simp add: keyed_body_entries fold_put_score_distinct)
qed

lemma sorted_set_id: "set (sorted_list_of_set (set xs)) = set xs"
  by simp

lemma category_keys_set:
  assumes "distinct (map fst scores)"
  shows "set (category_keys scores) = {k. \<exists>sid. score_entry scores sid k \<noteq> None}"
proof -
  have "set (category_keys scores) = set (concat (map (\<lambda>(sid, d). map fst d) scores))"
    unfolding category_keys_def by (rule sorted_set_id)
  also have "\<dots> = {k. \<exists>sid d. (sid, d) \<in> set scores \<and> k \<in> fst ` set d}"
    by force
  also have "\<dots> = {k. \<exists>sid d. map_of scores sid = Some d \<and> map_of d k \<noteq> None}"
    using assms by (simp add: map_of_eq_None_iff)
  also have "\<dots> = {k. \<exists>sid. score_entry scores sid k \<noteq> None}"
  proof -
    have "(\<exists>d. map_of scores sid = Some d \<and> map_of d k \<noteq> None) \<longleftrightarrow>
        score_entry scores sid k \<noteq> None" for sid k
      by (cases "map_of scores sid") (simp_all add: score_entry_def)
    then show ?thesis by blast
  qed
  finally show ?thesis .
qed

lemma category_keys_sorted_set:
  "category_keys scores = sorted_list_of_set (set (category_keys scores))"
  unfolding category_keys_def sorted_set_id ..

lemma some_entry_iff: "(\<exists>sid. map_of (rev es) sid \<noteq> None) \<longleftrightarrow> es \<noteq> []"
proof (cases es)
  case Nil
  then show ?thesis by simp
next
  case (Cons a es')
  then have "fst a \<in> fst ` set (rev es)" by simp
  then have "map_of (rev es) (fst a) \<noteq> None" by (simp only: map_of_eq_None_iff) simp
  with Cons show ?thesis by blast
qed

lemma file_keys:
  "(\<exists>sid. score_entry (fold (\<lambda>(sid, v). put_score sid k v) es scores) sid k' \<noteq> None) \<longleftrightarrow>
     (\<exists>sid. score_entry scores sid k' \<noteq> None) \<or> (k' = k \<and> es \<noteq> [])"
proof (cases "k' = k")
  case False
  then show ?thesis by (simp add: score_entry_file)
next
  case True
  have "score_entry (fold (\<lambda>(sid, v). put_score sid k v) es scores) sid k \<noteq> None \<longleftrightarrow>
      map_of (rev es) sid \<noteq> None \<or> score_entry scores sid k \<noteq> None" for sid
    by (simp add: score_entry_file split: option.splits)
  then have "(\<exists>sid. score_entry (fold (\<lambda>(sid, v). put_score sid k v) es scores) sid k \<noteq> None) \<longleftrightarrow>
      (\<exists>sid. map_of (rev es) sid \<noteq> None) \<or> (\<exists>sid. score_entry scores sid k \<noteq> None)"
    by blast
  with True show ?thesis
    unfolding some_entry_iff by blast
qed

lemma keyed_loop_keys:
  "(\<exists>sid. score_entry (fst (for_each_file keyed_body fs (scores, log))) sid k \<noteq> None) \<longleftrightarrow>
     (\<exists>sid. score_entry scores sid k \<noteq> None) \<or>
     (\<exists>f \<in> set fs. category_key f = k \<and> keyed_file_entries f \<noteq> [])"
proof (induction fs arbitrary: scores log)
  case Nil
  show ?case by simp
next
  case (Cons f fs)
  have step: "fst (for_each_file keyed_body (f # fs) (scores, log)) =
      fst (for_each_file keyed_body fs (fst (keyed_body f scores), log))"
    unfolding for_each_file_fst by simp
  show ?case
    unfolding step Cons.IH keyed_body_entries file_keys by auto
qed

lemma collected_category_keys:
  "category_keys (fst (for_each_file keyed_body fs ([], []))) =
     sorted_list_of_set (set (map category_key (filter (\<lambda>f. keyed_file_entries f \<noteq> []) fs)))"
proof -
  have "set (category_keys (fst (for_each_file keyed_body fs ([], [])))) =
      {k. \<exists>sid. score_entry (fst (for_each_file keyed_body fs ([], []))) sid k \<noteq> None}"
    by (rule category_keys_set) (simp add: keyed_loop_distinct)
  also have "\<dots> = {k. \<exists>f \<in> set fs. category_key f = k \<and> keyed_file_entries f \<noteq> []}"
    unfolding keyed_loop_keys by (simp add: score_entry_def)
  also have "\<dots> = set (map category_key (filter (\<lambda>f. keyed_file_entries f \<noteq> []) fs))"
    by auto
  finally show ?thesis
    using category_keys_sorted_set [of "fst (for_each_file keyed_body fs ([], []))"] by simp
qed

text \<open>
  C4 (as the code has it).  The columns of the merged table are the seven fixed columns, then
  the sorted distinct category keys of the SA files that gave an entry, then the sorted
  distinct category keys of the LA files that gave an entry, then the discussion column.  The
  two blocks are sorted each on its own.  The columns are the same for any order of the files.
\<close>

theorem columns_fixed_then_sorted_keys_per_category:
  "df_columns (create_grade_summary all_files) =
     fixed_columns
     @ sorted_list_of_set
         (set (map category_key (filter (\<lambda>f. keyed_file_entries f \<noteq> []) (sa_files all_files))))
     @ sorted_list_of_set
         (set (map category_key (filter (\<lambda>f. keyed_file_entries f \<noteq> []) (la_files all_files))))
     @ [tl_column] \<and>
   (set all_files' = set all_files \<longrightarrow>
      df_columns (create_grade_summary all_files') = df_columns (create_grade_summary all_files))"
proof -
  have c: "df_columns (create_grade_summary fs) =
     fixed_columns
     @ sorted_list_of_set
         (set (map category_key (filter (\<lambda>f. keyed_file_entries f \<noteq> []) (sa_files fs))))
     @ sorted_list_of_set
         (set (map category_key (filter (\<lambda>f. keyed_file_entries f \<noteq> []) (la_files fs))))
     @ [tl_column]" for fs
    by (simp add: create_grade_summary_def merge_tables_def Let_def collect_sa_def collect_la_def
        collected_category_keys)
  have "df_columns (create_grade_summary all_files') = df_columns (create_grade_summary all_files)"
    if "set all_files' = set all_files"
    unfolding c using that by (simp add: sa_files_def la_files_def)
  with c show ?thesis by blast
qed

theorem columns_order_witness:
  "set [file_la1, file_sa1] = set [file_sa1, file_la1] \<and>
   df_columns (create_grade_summary [file_la1, file_sa1]) =
     df_columns (create_grade_summary [file_sa1, file_la1]) \<and>
   df_columns (create_grade_summary [file_sa1, file_la1]) =
     fixed_columns @ [asc ''SA1''] @ [asc ''LA1''] @ [tl_column]"
proof -
  have s: "set [file_la1, file_sa1] = set [file_sa1, file_la1]" by auto
  note t = columns_fixed_then_sorted_keys_per_category [of "[file_sa1, file_la1]" "[file_la1, file_sa1]"]
  from t s have "df_columns (create_grade_summary [file_la1, file_sa1]) =
     df_columns (create_grade_summary [file_sa1, file_la1])"
    by blast
  moreover have "df_columns (create_grade_summary [file_sa1, file_la1]) =
     fixed_columns @ [asc ''SA1''] @ [asc ''LA1''] @ [tl_column]"
    by code_simp
  ultimately show ?thesis using s by blast
qed

text \<open>
  C4 as stated has one sorted block of category keys between the fixed columns and the
  discussion column.  With a score file \<open>SA1.xls\<close> and a score file \<open>LA1.xls\<close> the block is
  \<open>SA1\<close>, \<open>LA1\<close>, and the sorted union of the keys is \<open>LA1\<close>, \<open>SA1\<close>.
\<close>

theorem columns_one_sorted_block_counterexample:
  "df_columns (create_grade_summary [file_sa1, file_la1]) =
     fixed_columns @ [asc ''SA1'', asc ''LA1''] @ [tl_column] \<and>
   sorted_list_of_set (set (category_keys (fst (collect_sa [file_sa1, file_la1]))
       @ category_keys (fst (collect_la [file_sa1, file_la1])))) = [asc ''LA1'', asc ''SA1''] \<and>
   df_columns (create_grade_summary [file_sa1, file_la1]) \<noteq>
     fixed_columns
     @ sorted_list_of_set (set (category_keys (fst (collect_sa [file_sa1, file_la1]))
         @ category_keys (fst (collect_la [file_sa1, file_la1]))))
     @ [tl_column]"
  by code_simp

end
